theory Spec2Isabelle
  imports Main "HOL-Library.Word"
begin

section \<open>Go strings, as byte sequences\<close>

text \<open>
  A Go \<^verbatim>\<open>string\<close> is a sequence of bytes; it is modelled as a \<^typ>\<open>string\<close>
  (a list of 8-bit characters). The functions of package \<^verbatim>\<open>strings\<close> that the
  program calls are written out after their documented behaviour.
\<close>

definition HasPrefix :: "string \<Rightarrow> string \<Rightarrow> bool" where
  \<comment> \<open>\<^verbatim>\<open>strings.HasPrefix(s, prefix)\<close>\<close>
  "HasPrefix s p = (take (length p) s = p)"

fun Contains :: "string \<Rightarrow> string \<Rightarrow> bool" where
  \<comment> \<open>\<^verbatim>\<open>strings.Contains(s, substr)\<close>: \<open>substr\<close> occurs at some offset of \<open>s\<close>\<close>
  "Contains [] sub = (sub = [])"
| "Contains (c # cs) sub = (HasPrefix (c # cs) sub \<or> Contains cs sub)"

fun Split :: "string \<Rightarrow> char \<Rightarrow> string list" where
  \<comment> \<open>\<^verbatim>\<open>strings.Split(s, sep)\<close> for a separator of one byte (the program only splits
      on \<^verbatim>\<open>":"\<close>): the fields between the separators, one more than there are separators\<close>
  "Split [] sep = [[]]"
| "Split (c # cs) sep =
     (if c = sep then [] # Split cs sep
      else (case Split cs sep of
              [] \<Rightarrow> [[c]]
            | p # ps \<Rightarrow> (c # p) # ps))"

fun Join :: "string list \<Rightarrow> char \<Rightarrow> string" where
  \<comment> \<open>\<^verbatim>\<open>strings.Join(elems, sep)\<close> for a separator of one byte\<close>
  "Join [] sep = []"
| "Join [p] sep = p"
| "Join (p # q # ps) sep = p @ sep # Join (q # ps) sep"


text \<open>
  \<^verbatim>\<open>strings.TrimSpace\<close> removes the leading and the trailing white space, as Unicode
  defines it (\<^verbatim>\<open>unicode.IsSpace\<close>): the ASCII characters tab, line feed, vertical tab,
  form feed, carriage return and space, and the code points U+0085, U+00A0, U+1680,
  U+2000 to U+200A, U+2028, U+2029, U+202F, U+205F and U+3000, which are two or three
  bytes in UTF-8.
\<close>

definition asciiSpace :: "char \<Rightarrow> bool" where
  "asciiSpace c = (c \<in> set [CHR 0x09, CHR 0x0A, CHR 0x0B, CHR 0x0C, CHR 0x0D, CHR 0x20])"

definition space2 :: "char \<Rightarrow> char \<Rightarrow> bool" where
  \<comment> \<open>U+0085 and U+00A0 in UTF-8\<close>
  "space2 a b = (a = CHR 0xC2 \<and> (b = CHR 0x85 \<or> b = CHR 0xA0))"

definition space3 :: "char \<Rightarrow> char \<Rightarrow> char \<Rightarrow> bool" where
  \<comment> \<open>U+1680, U+2000..U+200A, U+2028, U+2029, U+202F, U+205F and U+3000 in UTF-8\<close>
  "space3 a b c =
     ((a = CHR 0xE1 \<and> b = CHR 0x9A \<and> c = CHR 0x80)
      \<or> (a = CHR 0xE2 \<and> b = CHR 0x80
          \<and> (c \<in> set [CHR 0x80, CHR 0x81, CHR 0x82, CHR 0x83, CHR 0x84, CHR 0x85, CHR 0x86,
                        CHR 0x87, CHR 0x88, CHR 0x89, CHR 0x8A, CHR 0xA8, CHR 0xA9, CHR 0xAF]))
      \<or> (a = CHR 0xE2 \<and> b = CHR 0x81 \<and> c = CHR 0x9F)
      \<or> (a = CHR 0xE3 \<and> b = CHR 0x80 \<and> c = CHR 0x80))"

fun TrimLeft :: "string \<Rightarrow> string" where
  \<comment> \<open>drops white space from the front\<close>
  "TrimLeft (a # b # c # s) =
     (if asciiSpace a then TrimLeft (b # c # s)
      else if space2 a b then TrimLeft (c # s)
      else if space3 a b c then TrimLeft s
      else a # b # c # s)"
| "TrimLeft [a, b] =
     (if asciiSpace a then TrimLeft [b]
      else if space2 a b then []
      else [a, b])"
| "TrimLeft [a] = (if asciiSpace a then [] else [a])"
| "TrimLeft [] = []"

fun TrimRightRev :: "string \<Rightarrow> string" where
  \<comment> \<open>drops white space from the back of a string that is given back to front\<close>
  "TrimRightRev (c # b # a # s) =
     (if asciiSpace c then TrimRightRev (b # a # s)
      else if space2 b c then TrimRightRev (a # s)
      else if space3 a b c then TrimRightRev s
      else c # b # a # s)"
| "TrimRightRev [c, b] =
     (if asciiSpace c then TrimRightRev [b]
      else if space2 b c then []
      else [c, b])"
| "TrimRightRev [c] = (if asciiSpace c then [] else [c])"
| "TrimRightRev [] = []"

definition TrimSpace :: "string \<Rightarrow> string" where
  "TrimSpace s = rev (TrimRightRev (rev (TrimLeft s)))"

definition apostrophe :: char where
  "apostrophe = CHR 0x27"

definition quoted :: "string \<Rightarrow> string" where
  \<comment> \<open>\<^verbatim>\<open>'%s'\<close> in a format string\<close>
  "quoted s = apostrophe # s @ [apostrophe]"

fun digits :: "nat \<Rightarrow> string" where
  "digits n =
     (if n < 10 then [''0123456789'' ! n]
      else digits (n div 10) @ [''0123456789'' ! (n mod 10)])"

definition format_d :: "int \<Rightarrow> string" where
  \<comment> \<open>\<^verbatim>\<open>%d\<close> in a format string\<close>
  "format_d i = (if i < 0 then CHR ''-'' # digits (nat (- i)) else digits (nat i))"

section \<open>Errors\<close>

text \<open>
  A Go \<^verbatim>\<open>error\<close> is modelled by its message. A panic (an index out of range, a nil
  pointer dereference) is a result of its own: it passes through every caller unchanged.
\<close>

datatype error = Error string | Panic string

fun wrapf :: "string \<Rightarrow> error \<Rightarrow> error" where
  \<comment> \<open>\<^verbatim>\<open>fmt.Errorf(prefix + "%w", err)\<close>\<close>
  "wrapf p (Error m) = Error (p @ m)"
| "wrapf p (Panic m) = Panic m"

section \<open>The data model\<close>


record InstanceInfo =
  ID :: string
  Host :: string
  Size :: string
  Port :: "32 word"
  Version :: string
  SourceID :: string

section \<open>The credential target (instanceSecretTargetID)\<close>

definition instanceSecretTargetID :: "InstanceInfo \<Rightarrow> string" where
  "instanceSecretTargetID selected =
     (if SourceID selected = [] then ID selected
      else if HasPrefix (SourceID selected) ''arn:aws:rds:'' then
        (let parts = Split (SourceID selected) CHR '':'' in
         if length parts \<ge> 7 then parts ! 6 else ID selected)
      else SourceID selected)"

section \<open>The world outside the program\<close>

text \<open>
  The file system, the clock and the calls that leave the process are explicit. A
  \<open>world\<close> holds what the program can change or observe changing: the files (content
  and last-modified time, in nanoseconds), the clock, and the trace of the effects issued so
  far, oldest first. An \<open>env\<close> holds what the program only reads and what its
  collaborators answer: the environment variables, whether a write to a path succeeds, the
  JSON codec, the cloud SDK, the fuzzy picker, the executable search path, and the child
  process. Console output is not part of the world.
\<close>

record CacheEnvelope =
  EnvelopeVersion :: string
  Instances :: "InstanceInfo list"

record RDSCreds =
  Username :: string
  Password :: string

definition CacheVersion :: string where
  "CacheVersion = ''v2''"

record Endpoint =
  Address :: "string option"
  EndpointPort :: "32 word option"

record DBInstance =
  Engine :: "string option"
  DBInstanceIdentifier :: "string option"
  DBEndpoint :: "Endpoint option"
  DBInstanceClass :: "string option"
  EngineVersion :: "string option"
  ReadReplicaSourceDBInstanceIdentifier :: "string option"

record aws_Config =
  cfgRegion :: string
  cfgProfile :: string

record sm_Options =
  smRegion :: string
  smProfile :: string

record Cmd =
  CmdPath :: string
  CmdArgs :: "string list"
  CmdEnv :: "string list"
  Setpgid :: bool

record fileinfo =
  content :: string
  modTime :: int

datatype event =
    DescribeDBInstances aws_Config
  | GetSecretValue sm_Options string
  | MkdirAll string
  | WriteFile string string
  | Start Cmd
  | TIOCSPGRP int
  | Wait
  | NativeConnect string "32 word" string string string

record world =
  files :: "string \<rightharpoonup> fileinfo"
  clock :: int
  trace :: "event list"

record env =
  getenv :: "string \<Rightarrow> string"
  environ :: "string list"
  writable :: "string \<Rightarrow> bool"
  json_Marshal :: "CacheEnvelope \<Rightarrow> string"
  json_Unmarshal :: "string \<Rightarrow> CacheEnvelope option"
  json_Unmarshal_creds :: "string \<Rightarrow> error + RDSCreds"
  LoadDefaultConfig :: "string \<Rightarrow> string option \<Rightarrow> error + aws_Config"
  rds_DescribeDBInstances :: "aws_Config \<Rightarrow> error + DBInstance list"
  sm_GetSecretValue :: "sm_Options \<Rightarrow> string \<Rightarrow> error + string option"
  fuzzyfinder_Find :: "InstanceInfo list \<Rightarrow> error + int"
  LookPath :: "string \<Rightarrow> string option"
  IsTerminal :: bool
  cmd_Start :: "Cmd \<Rightarrow> error + int"
  cmd_Wait :: "error option"
  Getpgrp :: int

definition emit :: "event \<Rightarrow> world \<Rightarrow> world" where
  "emit e w = w\<lparr>trace := trace w @ [e]\<rparr>"

definition filepath_Join :: "string list \<Rightarrow> string" where
  \<comment> \<open>\<^verbatim>\<open>filepath.Join\<close>: the non-empty elements, separated by slashes. The lexical
      cleaning of the result (\<^verbatim>\<open>filepath.Clean\<close>) is left out: paths are compared as written.\<close>
  "filepath_Join elems = Join (filter (\<lambda>e. e \<noteq> []) elems) CHR ''/''"

definition os_ReadFile :: "world \<Rightarrow> string \<Rightarrow> string option" where
  "os_ReadFile w path = map_option content (files w path)"

definition os_MkdirAll :: "string \<Rightarrow> world \<Rightarrow> world" where
  "os_MkdirAll path w = emit (MkdirAll path) w"

definition os_WriteFile :: "env \<Rightarrow> string \<Rightarrow> string \<Rightarrow> world \<Rightarrow> world" where
  \<comment> \<open>the program ignores the error of every write: a failed write leaves the files as
      they were\<close>
  "os_WriteFile ev path data w =
     emit (WriteFile path data)
       (if writable ev path
        then w\<lparr>files := (files w)(path \<mapsto> \<lparr>content = data, modTime = clock w\<rparr>)\<rparr>
        else w)"

definition Hour :: int where
  \<comment> \<open>\<^verbatim>\<open>time.Hour\<close>, a \<^verbatim>\<open>Duration\<close> in nanoseconds\<close>
  "Hour = 3600000000000"

definition Since :: "int \<Rightarrow> int \<Rightarrow> int" where
  \<comment> \<open>\<^verbatim>\<open>time.Since(t)\<close> at time \<open>now\<close>: a \<^verbatim>\<open>Duration\<close> is a signed 64-bit count of
      nanoseconds, and the difference saturates at its bounds\<close>
  "Since now t =
     (let d = now - t in
      if d > 2 ^ 63 - 1 then 2 ^ 63 - 1 else if d < - (2 ^ 63) then - (2 ^ 63) else d)"

section \<open>The cache store\<close>

definition getCacheDir :: "env \<Rightarrow> string" where
  "getCacheDir ev =
     (let d = getenv ev ''RDS_CACHE_DIR'' in
      if d \<noteq> [] then d else filepath_Join [getenv ev ''HOME'', ''.cache'', ''rds''])"

definition instancesCacheFile :: "env \<Rightarrow> string \<Rightarrow> string \<Rightarrow> string" where
  \<comment> \<open>\<^verbatim>\<open>cacheFile\<close> of GetInstancesWithCache\<close>
  "instancesCacheFile ev profile region =
     filepath_Join [getCacheDir ev, profile @ ''_'' @ region @ ''_instances.json'']"

definition lastConnectedFile :: "env \<Rightarrow> string \<Rightarrow> string" where
  \<comment> \<open>\<^verbatim>\<open>path\<close> of saveLastID and loadLastConnected\<close>
  "lastConnectedFile ev profile = filepath_Join [getCacheDir ev, profile @ ''_last_connected'']"

definition cacheLoad :: "env \<Rightarrow> string \<Rightarrow> world \<Rightarrow> InstanceInfo list option" where
  \<comment> \<open>GetInstancesWithCache, the read of the cache file. ReadFile and Stat look at
      the same file of the world, so Stat succeeds where ReadFile did.\<close>
  "cacheLoad ev cacheFile w =
     (case files w cacheFile of
        None \<Rightarrow> None
      | Some info \<Rightarrow>
          (case json_Unmarshal ev (content info) of
             None \<Rightarrow> None
           | Some envelope \<Rightarrow>
               if EnvelopeVersion envelope = CacheVersion \<and> Since (clock w) (modTime info) < Hour
               then Some (Instances envelope)
               else None))"

definition cacheSave :: "env \<Rightarrow> string \<Rightarrow> string \<Rightarrow> InstanceInfo list \<Rightarrow> world \<Rightarrow> world" where
  \<comment> \<open>GetInstancesWithCache, the write of the cache file\<close>
  "cacheSave ev cacheDir cacheFile instances w =
     (let w1 = os_MkdirAll cacheDir w;
          newCacheData = json_Marshal ev \<lparr>EnvelopeVersion = CacheVersion, Instances = instances\<rparr>
      in os_WriteFile ev cacheFile newCacheData w1)"

definition aws_ToString :: "string option \<Rightarrow> string" where
  "aws_ToString p = (case p of None \<Rightarrow> [] | Some s \<Rightarrow> s)"

fun collectPostgres :: "DBInstance list \<Rightarrow> InstanceInfo list \<Rightarrow> error + InstanceInfo list" where
  \<comment> \<open>GetInstancesWithCache, the loop over \<^verbatim>\<open>out.DBInstances\<close>; \<^verbatim>\<open>db.Endpoint\<close> and
      its port are pointers, and the program dereferences them unchecked\<close>
  "collectPostgres [] instances = Inr instances"
| "collectPostgres (db # dbs) instances =
     (if aws_ToString (Engine db) = ''postgres'' then
        (case DBEndpoint db of
           None \<Rightarrow> Inl (Panic ''nil pointer dereference'')
         | Some ep \<Rightarrow>
             (case EndpointPort ep of
                None \<Rightarrow> Inl (Panic ''nil pointer dereference'')
              | Some port \<Rightarrow>
                  collectPostgres dbs
                    (instances @
                      [\<lparr>ID = aws_ToString (DBInstanceIdentifier db),
                        Host = aws_ToString (Address ep),
                        Size = aws_ToString (DBInstanceClass db),
                        Port = port,
                        Version = aws_ToString (EngineVersion db),
                        SourceID = aws_ToString (ReadReplicaSourceDBInstanceIdentifier db)\<rparr>])))
      else collectPostgres dbs instances)"

definition GetInstancesWithCache ::
  "env \<Rightarrow> aws_Config \<Rightarrow> string \<Rightarrow> world \<Rightarrow> (error + InstanceInfo list) \<times> world" where
  "GetInstancesWithCache ev cfg profile w =
     (let cacheDir = getCacheDir ev;
          cacheFile = instancesCacheFile ev profile (cfgRegion cfg)
      in case cacheLoad ev cacheFile w of
           Some cached \<Rightarrow> (Inr cached, w)
         | None \<Rightarrow>
             (let w1 = emit (DescribeDBInstances cfg) w in
              case rds_DescribeDBInstances ev cfg of
                Inl err \<Rightarrow> (Inl err, w1)
              | Inr out \<Rightarrow>
                  (case collectPostgres out [] of
                     Inl err \<Rightarrow> (Inl err, w1)
                   | Inr instances \<Rightarrow>
                       (Inr instances, cacheSave ev cacheDir cacheFile instances w1))))"

definition saveLastID :: "env \<Rightarrow> string \<Rightarrow> string \<Rightarrow> world \<Rightarrow> world" where
  "saveLastID ev ident profile w =
     os_WriteFile ev (lastConnectedFile ev profile) ident (os_MkdirAll (getCacheDir ev) w)"

section \<open>The instance resolver\<close>

definition pickWithFuzzyFinder :: "env \<Rightarrow> InstanceInfo list \<Rightarrow> error + InstanceInfo" where
  \<comment> \<open>the picker answers an index or an error; indexing out of range panics\<close>
  "pickWithFuzzyFinder ev instances =
     (case fuzzyfinder_Find ev instances of
        Inl err \<Rightarrow> Inl err
      | Inr idx \<Rightarrow>
          if 0 \<le> idx \<and> idx < int (length instances) then Inr (instances ! nat idx)
          else Inl (Panic ''index out of range''))"

fun firstWithID :: "InstanceInfo list \<Rightarrow> string \<Rightarrow> InstanceInfo option" where
  \<comment> \<open>the loop \<^verbatim>\<open>for _, inst := range instances { if inst.ID == name { return inst, nil } }\<close>
      of findByName and loadLastConnected; \<open>None\<close> when the loop runs to its end\<close>
  "firstWithID [] name = None"
| "firstWithID (inst # rest) name = (if ID inst = name then Some inst else firstWithID rest name)"

fun collectMatches :: "InstanceInfo list \<Rightarrow> string \<Rightarrow> InstanceInfo list \<Rightarrow> InstanceInfo list" where
  \<comment> \<open>findByName, the second loop: appends every instance whose identifier contains the name\<close>
  "collectMatches [] name matches = matches"
| "collectMatches (inst # rest) name matches =
     collectMatches rest name (if Contains (ID inst) name then matches @ [inst] else matches)"

definition substringPass :: "env \<Rightarrow> InstanceInfo list \<Rightarrow> string \<Rightarrow> error + InstanceInfo" where
  \<comment> \<open>findByName after its first loop\<close>
  "substringPass ev instances name =
     (let matches = collectMatches instances name [] in
      if length matches = 1 then Inr (matches ! 0)
      else if length matches > 1 then pickWithFuzzyFinder ev matches
      else Inl (Error (''no instance matching '' @ quoted name)))"

definition findByName :: "env \<Rightarrow> InstanceInfo list \<Rightarrow> string \<Rightarrow> error + InstanceInfo" where
  "findByName ev instances name =
     (case firstWithID instances name of
        Some inst \<Rightarrow> Inr inst
      | None \<Rightarrow> substringPass ev instances name)"

definition loadLastConnected ::
  "env \<Rightarrow> InstanceInfo list \<Rightarrow> string \<Rightarrow> world \<Rightarrow> error + InstanceInfo" where
  "loadLastConnected ev instances profile w =
     (case os_ReadFile w (lastConnectedFile ev profile) of
        None \<Rightarrow> Inl (Error (''no history found for profile '' @ quoted profile))
      | Some data \<Rightarrow>
          (let lastID = TrimSpace data in
           case firstWithID instances lastID of
             Some inst \<Rightarrow> Inr inst
           | None \<Rightarrow>
               Inl (Error (''last used instance '' @ quoted lastID
                            @ '' not found in current profile''))))"

section \<open>The credential resolver\<close>

definition sm_NewFromConfig :: "aws_Config \<Rightarrow> (sm_Options \<Rightarrow> sm_Options) list \<Rightarrow> sm_Options" where
  \<comment> \<open>\<^verbatim>\<open>secretsmanager.NewFromConfig(cfg, optFns...)\<close>: the options start from the
      configuration, then every option function is applied in order\<close>
  "sm_NewFromConfig cfg optFns =
     fold (\<lambda>f opts. f opts) optFns \<lparr>smRegion = cfgRegion cfg, smProfile = cfgProfile cfg\<rparr>"

definition getRDSCredentials ::
  "env \<Rightarrow> aws_Config \<Rightarrow> InstanceInfo \<Rightarrow> string \<Rightarrow> world \<Rightarrow> (error + RDSCreds) \<times> world" where
  "getRDSCredentials ev cfg selected homeRegion w =
     (let secretTargetID = instanceSecretTargetID selected;
          sm = sm_NewFromConfig cfg [\<lambda>opts. opts\<lparr>smRegion := homeRegion\<rparr>];
          secretID = ''root/'' @ secretTargetID @ ''/psql'';
          w1 = emit (GetSecretValue sm secretID) w
      in case sm_GetSecretValue ev sm secretID of
           Inl err \<Rightarrow>
             (Inl (wrapf (''failed to fetch secret '' @ quoted secretID @ '' in ''
                           @ homeRegion @ '': '') err), w1)
         | Inr None \<Rightarrow> (Inl (Panic ''nil pointer dereference''), w1)
         | Inr (Some secretString) \<Rightarrow>
             (case json_Unmarshal_creds ev secretString of
                Inl err \<Rightarrow> (Inl err, w1)
              | Inr creds \<Rightarrow> (Inr creds, w1)))"

section \<open>The process handoff\<close>

definition buildConnectArgs :: "InstanceInfo \<Rightarrow> RDSCreds \<Rightarrow> string list" where
  "buildConnectArgs inst creds =
     [''-h'', Host inst, ''-p'', format_d (sint (Port inst)), ''-U'', Username creds,
      ''-d'', ''postgres'']"

definition startAndWait :: "env \<Rightarrow> Cmd \<Rightarrow> world \<Rightarrow> error option \<times> world" where
  \<comment> \<open>both tests of \<^verbatim>\<open>term.IsTerminal(fd)\<close> look at the same descriptor 0 and so
      give the same answer; the error of each \<^verbatim>\<open>TIOCSPGRP\<close> request is dropped\<close>
  "startAndWait ev cmd w =
     (let cmd1 = cmd\<lparr>Setpgid := True\<rparr>;
          w1 = emit (Start cmd1) w
      in case cmd_Start ev cmd1 of
           Inl err \<Rightarrow> (Some err, w1)
         | Inr pid \<Rightarrow>
             (let w2 = (if IsTerminal ev then emit (TIOCSPGRP pid) w1 else w1);
                  w3 = emit Wait w2;
                  err = cmd_Wait ev;
                  w4 = (if IsTerminal ev then emit (TIOCSPGRP (Getpgrp ev)) w3 else w3)
              in (err, w4)))"

definition executeExternal :: "env \<Rightarrow> string \<Rightarrow> InstanceInfo \<Rightarrow> RDSCreds \<Rightarrow> world \<Rightarrow> world" where
  "executeExternal ev bin inst creds w =
     (let args = buildConnectArgs inst creds;
          cmd = \<lparr>CmdPath = bin, CmdArgs = bin # args,
                 CmdEnv = environ ev @ [''PGPASSWORD='' @ Password creds], Setpgid = False\<rparr>
      in snd (startAndWait ev cmd w))"

definition runNativeConnect ::
  "string \<Rightarrow> 32 word \<Rightarrow> string \<Rightarrow> string \<Rightarrow> string \<Rightarrow> world \<Rightarrow> world" where
  \<comment> \<open>the built-in client is one effect of the trace; its session is not modelled\<close>
  "runNativeConnect host port user password dbname w =
     emit (NativeConnect host port user password dbname) w"

fun foreground :: "int \<Rightarrow> event list \<Rightarrow> int" where
  \<comment> \<open>the foreground process group of the terminal after the effects of a trace, from the
      group that owned it before, when every TIOCSPGRP request takes effect (the program
      ignores the request's error)\<close>
  "foreground owner [] = owner"
| "foreground owner (TIOCSPGRP pgrp # es) = foreground pgrp es"
| "foreground owner (e # es) = foreground owner es"

fun isLaunch :: "event \<Rightarrow> bool" where
  \<comment> \<open>the effects that start a client\<close>
  "isLaunch (Start cmd) = True"
| "isLaunch (NativeConnect host port user password dbname) = True"
| "isLaunch e = False"

section \<open>Run\<close>

record Options =
  Profile :: string
  Region :: string
  LastConnected :: bool
  Args :: "string list"

definition loadAWSConfig :: "env \<Rightarrow> string \<Rightarrow> string \<Rightarrow> error + aws_Config \<times> string" where
  "loadAWSConfig ev profile region =
     (case LoadDefaultConfig ev profile (Some ''ap-south-1'') of
        Inl err \<Rightarrow> Inl (wrapf ''load AWS config (home): '' err)
      | Inr homeCfg \<Rightarrow>
          (let homeRegion = cfgRegion homeCfg in
           case LoadDefaultConfig ev profile (if region \<noteq> [] then Some region else None) of
             Inl err \<Rightarrow> Inl (wrapf ''load AWS config: '' err)
           | Inr cfg \<Rightarrow> Inr (cfg, homeRegion)))"

definition selectInstance ::
  "env \<Rightarrow> Options \<Rightarrow> InstanceInfo list \<Rightarrow> world \<Rightarrow> error + InstanceInfo" where
  \<comment> \<open>Run, the choice between the three ways to select\<close>
  "selectInstance ev opts instances w =
     (if length (Args opts) > 0 then findByName ev instances (Args opts ! 0)
      else if LastConnected opts then loadLastConnected ev instances (Profile opts) w
      else pickWithFuzzyFinder ev instances)"

definition launch :: "env \<Rightarrow> InstanceInfo \<Rightarrow> RDSCreds \<Rightarrow> world \<Rightarrow> world" where
  \<comment> \<open>Run, after the last selection is saved: pgcli, else psql, else the built-in client\<close>
  "launch ev selected creds w =
     (case LookPath ev ''pgcli'' of
        Some path \<Rightarrow> executeExternal ev path selected creds w
      | None \<Rightarrow>
          (case LookPath ev ''psql'' of
             Some path \<Rightarrow> executeExternal ev path selected creds w
           | None \<Rightarrow>
               runNativeConnect (Host selected) (Port selected) (Username creds)
                 (Password creds) ''postgres'' w))"

definition Run :: "env \<Rightarrow> Options \<Rightarrow> world \<Rightarrow> error option \<times> world" where
  \<comment> \<open>the VPN check at the start of Run only prints a warning and is left out\<close>
  "Run ev opts w =
     (case loadAWSConfig ev (Profile opts) (Region opts) of
        Inl err \<Rightarrow> (Some err, w)
      | Inr (cfg, homeRegion) \<Rightarrow>
          (case GetInstancesWithCache ev cfg (Profile opts) w of
             (Inl err, w1) \<Rightarrow> (Some (wrapf ''fetch instances: '' err), w1)
           | (Inr instances, w1) \<Rightarrow>
               (case selectInstance ev opts instances w1 of
                  Inl selectErr \<Rightarrow> (Some (wrapf ''selection: '' selectErr), w1)
                | Inr selected \<Rightarrow>
                    (case getRDSCredentials ev cfg selected homeRegion w1 of
                       (Inl err, w2) \<Rightarrow> (Some (wrapf ''secrets: '' err), w2)
                     | (Inr creds, w2) \<Rightarrow>
                         (let w3 = saveLastID ev (ID selected) (Profile opts) w2
                          in (None, launch ev selected creds w3))))))"

section \<open>Test fixtures\<close>

text \<open>
  The instances of the repository's tests, and an environment and a
  world to run the program in: the cache directory is \<^verbatim>\<open>/tmp/rds\<close>, every write
  succeeds, the JSON codec knows one envelope, the cloud answers one PostgreSQL
  instance, only \<^verbatim>\<open>psql\<close> is installed, standard input is a terminal, and the child
  starts with process id 4242 and exits with status 1.
\<close>

definition testMetabasePOCInstance :: InstanceInfo where
  "testMetabasePOCInstance =
     \<lparr>ID = ''metabasedev-poc'',
      Host = ''metabasedev-poc.xxxxx.ap-south-1.rds.amazonaws.com'',
      Size = ''db.t3.micro'', Port = 5432, Version = ''15'', SourceID = []\<rparr>"

definition testStagingInstance :: InstanceInfo where
  "testStagingInstance =
     \<lparr>ID = ''staging-db-1'', Host = ''staging.xxx.rds.amazonaws.com'',
      Size = [], Port = 5432, Version = [], SourceID = []\<rparr>"

definition testReplicaInstance :: InstanceInfo where
  "testReplicaInstance =
     \<lparr>ID = ''metabasedev-poc-replica'', Host = ''replica.xxx.rds.amazonaws.com'',
      Size = ''db.t3.micro'', Port = 5432, Version = ''15'',
      SourceID = ''arn:aws:rds:ap-south-1:123456789012:db:metabasedev-poc''\<rparr>"

definition testEnvelope :: CacheEnvelope where
  "testEnvelope = \<lparr>EnvelopeVersion = ''v2'', Instances = [testMetabasePOCInstance]\<rparr>"

definition testDBInstance :: DBInstance where
  "testDBInstance =
     \<lparr>Engine = Some ''postgres'',
      DBInstanceIdentifier = Some ''metabasedev-poc'',
      DBEndpoint = Some \<lparr>Address = Some ''metabasedev-poc.xxxxx.ap-south-1.rds.amazonaws.com'',
                          EndpointPort = Some 5432\<rparr>,
      DBInstanceClass = Some ''db.t3.micro'',
      EngineVersion = Some ''15'',
      ReadReplicaSourceDBInstanceIdentifier = None\<rparr>"

definition testEnv :: env where
  "testEnv =
     \<lparr>getenv = (\<lambda>k. if k = ''RDS_CACHE_DIR'' then ''/tmp/rds'' else []),
      environ = [],
      writable = (\<lambda>p. True),
      json_Marshal = (\<lambda>e. if e = testEnvelope then ''envelope v2 metabasedev-poc'' else ''null''),
      json_Unmarshal = (\<lambda>s. if s = ''envelope v2 metabasedev-poc'' then Some testEnvelope else None),
      json_Unmarshal_creds =
        (\<lambda>s. if s = ''secret'' then Inr \<lparr>Username = ''postgres'', Password = ''test-secret''\<rparr>
             else Inl (Error ''unexpected end of JSON input'')),
      LoadDefaultConfig =
        (\<lambda>profile region.
           Inr \<lparr>cfgRegion = (case region of None \<Rightarrow> ''ap-southeast-1'' | Some r \<Rightarrow> r),
                cfgProfile = profile\<rparr>),
      rds_DescribeDBInstances = (\<lambda>cfg. Inr [testDBInstance]),
      sm_GetSecretValue =
        (\<lambda>opts secretID.
           if smRegion opts = ''ap-south-1'' \<and> secretID = ''root/metabasedev-poc/psql''
           then Inr (Some ''secret'') else Inl (Error ''ResourceNotFoundException'')),
      fuzzyfinder_Find = (\<lambda>instances. Inl (Error ''abort'')),
      LookPath = (\<lambda>name. if name = ''psql'' then Some ''/usr/bin/psql'' else None),
      IsTerminal = True,
      cmd_Start = (\<lambda>cmd. Inr 4242),
      cmd_Wait = Some (Error ''exit status 1''),
      Getpgrp = 4000\<rparr>"

definition testWorld :: world where
  "testWorld = \<lparr>files = Map.empty, clock = 1000, trace = []\<rparr>"

definition testOptions :: Options where
  "testOptions = \<lparr>Profile = ''testprofile'', Region = [], LastConnected = False,
                   Args = [''metabasedev'']\<rparr>"

definition testCmd :: Cmd where
  "testCmd = \<lparr>CmdPath = ''/usr/bin/psql'',
               CmdArgs = ''/usr/bin/psql'' # buildConnectArgs testMetabasePOCInstance
                           \<lparr>Username = ''postgres'', Password = ''test-secret''\<rparr>,
               CmdEnv = [''PGPASSWORD=test-secret''], Setpgid = False\<rparr>"

definition testEnvStartFails :: env where
  \<comment> \<open>as \<open>testEnv\<close>, but the child process does not start\<close>
  "testEnvStartFails = testEnv\<lparr>cmd_Start := (\<lambda>cmd. Inl (Error ''fork/exec /usr/bin/psql: permission denied''))\<rparr>"

definition testEnvNoSecret :: env where
  \<comment> \<open>as \<open>testEnv\<close>, but the secret store refuses every request\<close>
  "testEnvNoSecret =
     testEnv\<lparr>sm_GetSecretValue := (\<lambda>opts secretID. Inl (Error ''AccessDeniedException''))\<rparr>"

section \<open>Facts about the string functions\<close>

lemma Split_not_Nil: "Split s sep \<noteq> []"
  by (induction s) (auto split: list.splits)

lemma Split_single: "sep \<notin> set p \<Longrightarrow> Split p sep = [p]"
  by (induction p) auto

lemma Split_append_sep:
  "sep \<notin> set p \<Longrightarrow> Split (p @ sep # rest) sep = p # Split rest sep"
  by (induction p) auto

lemma Split_Join:
  "flds \<noteq> [] \<Longrightarrow> \<forall>f \<in> set flds. sep \<notin> set f \<Longrightarrow> Split (Join flds sep) sep = flds"
proof (induction flds sep rule: Join.induct)
  case (1 sep)
  then show ?case by simp
next
  case (2 p sep)
  then show ?case by (simp add: Split_single)
next
  case (3 p q ps sep)
  then show ?case by (simp add: Split_append_sep)
qed

lemma HasPrefix_iff: "HasPrefix s p \<longleftrightarrow> (\<exists>post. s = p @ post)"
  unfolding HasPrefix_def
  by (metis append_eq_conv_conj append_take_drop_id)

text \<open>\<open>Contains\<close> is the substring relation.\<close>

lemma Contains_iff: "Contains s sub \<longleftrightarrow> (\<exists>pre post. s = pre @ sub @ post)"
proof (induction s)
  case Nil
  then show ?case by auto
next
  case (Cons c cs)
  show ?case
  proof
    assume "Contains (c # cs) sub"
    then consider "HasPrefix (c # cs) sub" | "Contains cs sub" by auto
    then show "\<exists>pre post. c # cs = pre @ sub @ post"
    proof cases
      case 1
      then obtain post where "c # cs = sub @ post" by (auto simp: HasPrefix_iff)
      then have "c # cs = [] @ sub @ post" by simp
      then show ?thesis by blast
    next
      case 2
      with Cons obtain pre post where "cs = pre @ sub @ post" by auto
      then have "c # cs = (c # pre) @ sub @ post" by simp
      then show ?thesis by blast
    qed
  next
    assume "\<exists>pre post. c # cs = pre @ sub @ post"
    then obtain pre post where eq: "c # cs = pre @ sub @ post" by auto
    show "Contains (c # cs) sub"
    proof (cases pre)
      case Nil
      with eq have "HasPrefix (c # cs) sub" by (auto simp: HasPrefix_iff)
      then show ?thesis by simp
    next
      case (Cons a pre')
      with eq have "cs = pre' @ sub @ post" by simp
      with Cons.IH have "Contains cs sub" by blast
      then show ?thesis by simp
    qed
  qed
qed

text \<open>
  Trimming changes nothing in a string with no ASCII white space and none of the bytes
  that start a white space character of two or three bytes; the identifiers of
  instances (letters, digits and hyphens) are such strings.
\<close>

lemma TrimLeft_plain:
  "\<forall>c \<in> set s. \<not> asciiSpace c \<and> c \<notin> {CHR 0xC2, CHR 0xE1, CHR 0xE2, CHR 0xE3} \<Longrightarrow>
     TrimLeft s = s"
  by (cases s rule: TrimLeft.cases) (auto simp: space2_def space3_def)

lemma TrimRightRev_plain:
  "\<forall>c \<in> set s. \<not> asciiSpace c \<and> c \<notin> {CHR 0xC2, CHR 0xE1, CHR 0xE2, CHR 0xE3} \<Longrightarrow>
     TrimRightRev s = s"
  by (cases s rule: TrimRightRev.cases) (auto simp: space2_def space3_def)

lemma TrimSpace_plain:
  assumes "\<forall>c \<in> set s. \<not> asciiSpace c \<and> c \<notin> {CHR 0xC2, CHR 0xE1, CHR 0xE2, CHR 0xE3}"
  shows "TrimSpace s = s"
proof -
  from assms have "TrimLeft s = s" by (rule TrimLeft_plain)
  moreover from assms have "TrimRightRev (rev s) = rev s"
    by (intro TrimRightRev_plain) simp
  ultimately show ?thesis by (simp add: TrimSpace_def)
qed

section \<open>Facts about the resolver's loops\<close>

lemma firstWithID_find: "firstWithID instances name = find (\<lambda>i. ID i = name) instances"
  by (induction instances) auto

lemma firstWithID_Some:
  "firstWithID instances name = Some r \<Longrightarrow> r \<in> set instances \<and> ID r = name"
  by (induction instances) (auto split: if_splits)

lemma firstWithID_None:
  "firstWithID instances name = None \<longleftrightarrow> (\<forall>i \<in> set instances. ID i \<noteq> name)"
  by (induction instances) auto

lemma firstWithID_distinct:
  "inst \<in> set instances \<Longrightarrow> distinct (map ID instances) \<Longrightarrow>
     firstWithID instances (ID inst) = Some inst"
  by (induction instances) (auto simp: image_iff)

lemma collectMatches_filter:
  "collectMatches instances name matches =
     matches @ filter (\<lambda>i. Contains (ID i) name) instances"
  by (induction instances arbitrary: matches) auto

lemma pickWithFuzzyFinder_member:
  "pickWithFuzzyFinder ev instances = Inr r \<Longrightarrow> r \<in> set instances"
  by (auto simp: pickWithFuzzyFinder_def split: sum.splits if_splits)

lemma substringPass_member:
  assumes "substringPass ev instances name = Inr r"
  shows "r \<in> set instances"
proof -
  let ?m = "filter (\<lambda>i. Contains (ID i) name) instances"
  have m: "collectMatches instances name [] = ?m"
    by (simp add: collectMatches_filter)
  have "r \<in> set ?m"
  proof (cases "length ?m = 1")
    case True
    with assms m have "r = ?m ! 0" by (simp add: substringPass_def)
    with True show ?thesis by (metis nth_mem zero_less_one)
  next
    case False
    with assms m have "pickWithFuzzyFinder ev ?m = Inr r"
      by (auto simp: substringPass_def Let_def split: if_splits)
    then show ?thesis by (rule pickWithFuzzyFinder_member)
  qed
  then show ?thesis by simp
qed

section \<open>Facts about the world\<close>

lemma Since_less_Hour: "Since now t < Hour \<longleftrightarrow> now - t < Hour"
  by (simp add: Since_def Hour_def Let_def)

lemma Since_less_lit: "Since now t < 3600000000000 \<longleftrightarrow> now - t < 3600000000000"
  by (simp add: Since_def Let_def)

lemma trace_emit: "trace (emit e w) = trace w @ [e]"
  by (simp add: emit_def)

lemma files_emit: "files (emit e w) = files w"
  by (simp add: emit_def)

lemma clock_emit: "clock (emit e w) = clock w"
  by (simp add: emit_def)

lemma files_os_WriteFile:
  "files (os_WriteFile ev path data w) =
     (if writable ev path then (files w)(path \<mapsto> \<lparr>content = data, modTime = clock w\<rparr>)
      else files w)"
  by (simp add: os_WriteFile_def files_emit)

lemma trace_os_WriteFile:
  "trace (os_WriteFile ev path data w) = trace w @ [WriteFile path data]"
  by (simp add: os_WriteFile_def trace_emit)

lemma clock_os_WriteFile: "clock (os_WriteFile ev path data w) = clock w"
  by (simp add: os_WriteFile_def clock_emit)

lemma files_cacheSave:
  "files (cacheSave ev cacheDir cacheFile instances w) =
     (if writable ev cacheFile
      then (files w)(cacheFile \<mapsto>
             \<lparr>content = json_Marshal ev \<lparr>EnvelopeVersion = CacheVersion, Instances = instances\<rparr>,
              modTime = clock w\<rparr>)
      else files w)"
  by (simp add: cacheSave_def Let_def files_os_WriteFile os_MkdirAll_def files_emit clock_emit)

lemma trace_cacheSave:
  "trace (cacheSave ev cacheDir cacheFile instances w) =
     trace w @ [MkdirAll cacheDir,
                WriteFile cacheFile
                  (json_Marshal ev \<lparr>EnvelopeVersion = CacheVersion, Instances = instances\<rparr>)]"
  by (simp add: cacheSave_def Let_def trace_os_WriteFile os_MkdirAll_def trace_emit)

lemma clock_cacheSave: "clock (cacheSave ev cacheDir cacheFile instances w) = clock w"
  by (simp add: cacheSave_def Let_def clock_os_WriteFile os_MkdirAll_def clock_emit)

lemma filepath_Join_pair:
  "name \<noteq> [] \<Longrightarrow>
     filepath_Join [dir, name] = (if dir = [] then name else dir @ CHR ''/'' # name)"
  by (simp add: filepath_Join_def)

lemma last_filepath_Join: "name \<noteq> [] \<Longrightarrow> last (filepath_Join [dir, name]) = last name"
  by (simp add: filepath_Join_pair)

text \<open>The cache file of the instances is never the file of the last selection.\<close>

lemma instancesCacheFile_neq_lastConnectedFile:
  "instancesCacheFile ev profile region \<noteq> lastConnectedFile ev p"
proof
  assume eq: "instancesCacheFile ev profile region = lastConnectedFile ev p"
  have "last (instancesCacheFile ev profile region) = CHR ''n''"
    by (simp add: instancesCacheFile_def last_filepath_Join)
  moreover have "last (lastConnectedFile ev p) = CHR ''d''"
    by (simp add: lastConnectedFile_def last_filepath_Join)
  ultimately show False using eq by simp
qed

lemma trace_saveLastID:
  "trace (saveLastID ev ident profile w) =
     trace w @ [MkdirAll (getCacheDir ev), WriteFile (lastConnectedFile ev profile) ident]"
  by (simp add: saveLastID_def trace_os_WriteFile os_MkdirAll_def trace_emit)

lemma files_saveLastID:
  "files (saveLastID ev ident profile w) =
     (if writable ev (lastConnectedFile ev profile)
      then (files w)(lastConnectedFile ev profile \<mapsto> \<lparr>content = ident, modTime = clock w\<rparr>)
      else files w)"
  by (simp add: saveLastID_def files_os_WriteFile os_MkdirAll_def files_emit clock_emit)

section \<open>Facts about the effects of Run's steps\<close>

lemma GetInstancesWithCache_last_untouched:
  assumes "GetInstancesWithCache ev cfg profile w = (res, w1)"
  shows "files w1 (lastConnectedFile ev p) = files w (lastConnectedFile ev p)
         \<and> (\<exists>added. trace w1 = trace w @ added
               \<and> (\<forall>d. WriteFile (lastConnectedFile ev p) d \<notin> set added))"
proof (cases "cacheLoad ev (instancesCacheFile ev profile (cfgRegion cfg)) w")
  case (Some cached)
  with assms have "w1 = w"
    by (simp add: GetInstancesWithCache_def Let_def)
  then show ?thesis by simp
next
  case None
  let ?w = "emit (DescribeDBInstances cfg) w"
  let ?f = "instancesCacheFile ev profile (cfgRegion cfg)"
  from None assms consider
      "w1 = ?w"
    | instances where "w1 = cacheSave ev (getCacheDir ev) ?f instances ?w"
    by (auto simp: GetInstancesWithCache_def Let_def split: sum.splits)
  then show ?thesis
  proof cases
    case 1
    then show ?thesis by (simp add: files_emit trace_emit)
  next
    case 2
    have neq: "?f \<noteq> lastConnectedFile ev p"
      by (rule instancesCacheFile_neq_lastConnectedFile)
    from 2 neq have "files w1 (lastConnectedFile ev p) = files w (lastConnectedFile ev p)"
      by (auto simp: files_cacheSave files_emit)
    moreover from 2 have "trace w1 = trace w @
        [DescribeDBInstances cfg, MkdirAll (getCacheDir ev),
         WriteFile ?f (json_Marshal ev \<lparr>EnvelopeVersion = CacheVersion, Instances = instances\<rparr>)]"
      by (simp add: trace_cacheSave trace_emit)
    ultimately show ?thesis using neq by auto
  qed
qed

lemma getRDSCredentials_effects:
  assumes "getRDSCredentials ev cfg selected homeRegion w = (res, w2)"
  shows "files w2 = files w
         \<and> trace w2 = trace w @ [GetSecretValue \<lparr>smRegion = homeRegion, smProfile = cfgProfile cfg\<rparr>
                                   (''root/'' @ instanceSecretTargetID selected @ ''/psql'')]"
  using assms
  by (auto simp: getRDSCredentials_def sm_NewFromConfig_def Let_def trace_emit files_emit
           split: sum.splits option.splits)

lemma executeExternal_effects:
  "files (executeExternal ev bin inst creds w) = files w
   \<and> (\<exists>cmd rest. trace (executeExternal ev bin inst creds w) = trace w @ Start cmd # rest)"
  by (auto simp: executeExternal_def startAndWait_def Let_def emit_def split: sum.splits)

lemma launch_effects:
  "files (launch ev selected creds w) = files w
   \<and> (\<exists>launched. trace (launch ev selected creds w) = trace w @ launched
         \<and> launched \<noteq> [] \<and> isLaunch (hd launched))"
proof (cases "LookPath ev ''pgcli''")
  case (Some path)
  with executeExternal_effects [of ev path selected creds w] show ?thesis
    by (auto simp: launch_def)
next
  case None
  show ?thesis
  proof (cases "LookPath ev ''psql''")
    case (Some path)
    with None executeExternal_effects [of ev path selected creds w] show ?thesis
      by (auto simp: launch_def)
  next
    case None2: None
    with None show ?thesis
      by (simp add: launch_def runNativeConnect_def emit_def)
  qed
qed

section \<open>Claims\<close>

text \<open>
  C1. The credential target of a selected instance: with an empty replication source it
  is the instance's own identifier; with a source that starts with \<^verbatim>\<open>arn:aws:rds:\<close>
  and is made of the colon-free fields \<open>flds\<close> joined by colons, it is the field at
  index 6 when there are at least 7 fields and the instance's own identifier when there
  are fewer; with any other source it is that source.
\<close>

theorem instanceSecretTargetID_cases:
  "(SourceID selected = [] \<longrightarrow> instanceSecretTargetID selected = ID selected)
   \<and> (HasPrefix (SourceID selected) ''arn:aws:rds:'' \<longrightarrow>
        (\<forall>flds. flds \<noteq> [] \<and> (\<forall>f \<in> set flds. CHR '':'' \<notin> set f)
             \<and> SourceID selected = Join flds CHR '':'' \<longrightarrow>
           instanceSecretTargetID selected =
             (if length flds \<ge> 7 then flds ! 6 else ID selected)))
   \<and> (SourceID selected \<noteq> [] \<and> \<not> HasPrefix (SourceID selected) ''arn:aws:rds:'' \<longrightarrow>
        instanceSecretTargetID selected = SourceID selected)"
proof (intro conjI impI allI)
  assume "SourceID selected = []"
  then show "instanceSecretTargetID selected = ID selected"
    by (simp add: instanceSecretTargetID_def)
next
  fix flds
  assume arn: "HasPrefix (SourceID selected) ''arn:aws:rds:''"
    and f: "flds \<noteq> [] \<and> (\<forall>f \<in> set flds. CHR '':'' \<notin> set f)
             \<and> SourceID selected = Join flds CHR '':''"
  from f have split: "Split (SourceID selected) CHR '':'' = flds"
    by (simp add: Split_Join)
  from arn have "SourceID selected \<noteq> []"
    by (auto simp: HasPrefix_def)
  with arn split
  show "instanceSecretTargetID selected = (if length flds \<ge> 7 then flds ! 6 else ID selected)"
    by (simp add: instanceSecretTargetID_def Let_def)
next
  assume "SourceID selected \<noteq> [] \<and> \<not> HasPrefix (SourceID selected) ''arn:aws:rds:''"
  then show "instanceSecretTargetID selected = SourceID selected"
    by (simp add: instanceSecretTargetID_def)
qed

theorem instanceSecretTargetID_cases_witness:
  "instanceSecretTargetID testMetabasePOCInstance = ''metabasedev-poc''
   \<and> instanceSecretTargetID testReplicaInstance = ''metabasedev-poc''
   \<and> instanceSecretTargetID (testReplicaInstance\<lparr>SourceID := ''arn:aws:rds:a:b:c''\<rparr>)
       = ''metabasedev-poc-replica''
   \<and> instanceSecretTargetID (testReplicaInstance\<lparr>SourceID := ''master-db''\<rparr>) = ''master-db''"
proof -
  let ?short = "testReplicaInstance\<lparr>SourceID := ''arn:aws:rds:a:b:c''\<rparr>"
  let ?plain = "testReplicaInstance\<lparr>SourceID := ''master-db''\<rparr>"
  have own: "instanceSecretTargetID testMetabasePOCInstance = ''metabasedev-poc''"
    using instanceSecretTargetID_cases [of testMetabasePOCInstance]
    by (simp add: testMetabasePOCInstance_def)
  have "HasPrefix (SourceID testReplicaInstance) ''arn:aws:rds:''"
    by (simp add: testReplicaInstance_def HasPrefix_def)
  moreover have "SourceID testReplicaInstance =
      Join [''arn'', ''aws'', ''rds'', ''ap-south-1'', ''123456789012'', ''db'', ''metabasedev-poc'']
        CHR '':''"
    by (simp add: testReplicaInstance_def)
  ultimately have arn: "instanceSecretTargetID testReplicaInstance = ''metabasedev-poc''"
    using instanceSecretTargetID_cases [of testReplicaInstance]
    by (auto dest!: spec [where x = "[''arn'', ''aws'', ''rds'', ''ap-south-1'', ''123456789012'',
                                      ''db'', ''metabasedev-poc'']"])
  have "HasPrefix (SourceID ?short) ''arn:aws:rds:''"
    by (simp add: HasPrefix_def)
  moreover have "SourceID ?short = Join [''arn'', ''aws'', ''rds'', ''a'', ''b'', ''c''] CHR '':''"
    by simp
  ultimately have short: "instanceSecretTargetID ?short = ''metabasedev-poc-replica''"
    using instanceSecretTargetID_cases [of ?short]
    by (auto simp: testReplicaInstance_def
             dest!: spec [where x = "[''arn'', ''aws'', ''rds'', ''a'', ''b'', ''c'']"])
  have plain: "instanceSecretTargetID ?plain = ''master-db''"
    using instanceSecretTargetID_cases [of ?plain]
    by (simp add: HasPrefix_def)
  from own arn short plain show ?thesis by simp
qed

text \<open>
  C2. When the name equals the identifier of an instance of the list, findByName returns
  an instance of the list with that identifier: the first one, which is that very
  instance when the identifiers of the list are distinct. The answer is the same for every
  environment, so neither the substring matches nor the picker have a say; and findByName
  goes on to the substring pass exactly when no identifier equals the name.
\<close>

theorem findByName_exact_match:
  assumes "inst \<in> set instances" and "ID inst = name"
  shows "(\<exists>r. findByName ev instances name = Inr r
            \<and> find (\<lambda>i. ID i = name) instances = Some r
            \<and> r \<in> set instances \<and> ID r = name
            \<and> (distinct (map ID instances) \<longrightarrow> r = inst)
            \<and> (\<forall>ev'. findByName ev' instances name = Inr r))
         \<and> (\<forall>names. (\<forall>i \<in> set instances. ID i \<noteq> names) \<longrightarrow>
               findByName ev instances names = substringPass ev instances names)"
proof -
  from assms have "firstWithID instances name \<noteq> None"
    by (auto simp: firstWithID_None)
  then obtain r where r: "firstWithID instances name = Some r" by auto
  have "distinct (map ID instances) \<longrightarrow> r = inst"
    using r assms firstWithID_distinct by fastforce
  moreover have "firstWithID instances names = None"
    if "\<forall>i \<in> set instances. ID i \<noteq> names" for names
    using that by (simp add: firstWithID_None)
  ultimately show ?thesis
    using r firstWithID_Some [OF r] by (simp add: findByName_def firstWithID_find)
qed

theorem findByName_exact_match_witness:
  "testMetabasePOCInstance \<in> set [testReplicaInstance, testMetabasePOCInstance, testStagingInstance]
   \<and> Contains (ID testReplicaInstance) ''metabasedev-poc''
   \<and> findByName testEnv [testReplicaInstance, testMetabasePOCInstance, testStagingInstance]
        ''metabasedev-poc'' = Inr testMetabasePOCInstance"
proof -
  let ?l = "[testReplicaInstance, testMetabasePOCInstance, testStagingInstance]"
  have d: "distinct (map ID ?l)"
    by (simp add: testReplicaInstance_def testMetabasePOCInstance_def testStagingInstance_def)
  have "testMetabasePOCInstance \<in> set ?l" by simp
  moreover have "ID testMetabasePOCInstance = ''metabasedev-poc''"
    by (simp add: testMetabasePOCInstance_def)
  ultimately have "findByName testEnv ?l ''metabasedev-poc'' = Inr testMetabasePOCInstance"
    using findByName_exact_match [of testMetabasePOCInstance ?l "''metabasedev-poc''" testEnv] d
    by auto
  moreover have "Contains (ID testReplicaInstance) ''metabasedev-poc''"
    by (simp add: testReplicaInstance_def HasPrefix_def)
  ultimately show ?thesis by simp
qed

text \<open>
  C7. When no identifier equals the name: if exactly one instance of the list has an
  identifier that contains the name, findByName returns that instance; if none has,
  findByName fails with the message \<^verbatim>\<open>no instance matching '<name>'\<close>.
\<close>

theorem findByName_substring_match:
  assumes "\<forall>i \<in> set instances. ID i \<noteq> name"
  shows "(filter (\<lambda>i. Contains (ID i) name) instances = [inst] \<longrightarrow>
            findByName ev instances name = Inr inst)
       \<and> ((\<forall>i \<in> set instances. \<not> Contains (ID i) name) \<longrightarrow>
            findByName ev instances name
              = Inl (Error (''no instance matching '' @ [CHR 0x27] @ name @ [CHR 0x27])))"
proof -
  from assms have none: "firstWithID instances name = None"
    by (simp add: firstWithID_None)
  have "filter (\<lambda>i. Contains (ID i) name) instances = []"
    if "\<forall>i \<in> set instances. \<not> Contains (ID i) name"
    using that by (simp add: filter_empty_conv)
  with none show ?thesis
    by (auto simp: findByName_def substringPass_def collectMatches_filter quoted_def
                   apostrophe_def)
qed

theorem findByName_substring_match_witness:
  "findByName testEnv [testStagingInstance, testMetabasePOCInstance] ''metabasedev''
     = Inr testMetabasePOCInstance
   \<and> findByName testEnv [testMetabasePOCInstance] ''nonexistent''
     = Inl (Error (''no instance matching '' @ [CHR 0x27] @ ''nonexistent'' @ [CHR 0x27]))"
proof -
  let ?l = "[testStagingInstance, testMetabasePOCInstance]"
  have "\<forall>i \<in> set ?l. ID i \<noteq> ''metabasedev''"
    by (simp add: testMetabasePOCInstance_def testStagingInstance_def)
  moreover have "filter (\<lambda>i. Contains (ID i) ''metabasedev'') ?l = [testMetabasePOCInstance]"
    by (simp add: testMetabasePOCInstance_def testStagingInstance_def HasPrefix_def)
  ultimately have one: "findByName testEnv ?l ''metabasedev'' = Inr testMetabasePOCInstance"
    using findByName_substring_match [of ?l "''metabasedev''" testMetabasePOCInstance testEnv]
    by blast
  have "\<forall>i \<in> set [testMetabasePOCInstance]. ID i \<noteq> ''nonexistent''"
    by (simp add: testMetabasePOCInstance_def)
  moreover have "\<forall>i \<in> set [testMetabasePOCInstance]. \<not> Contains (ID i) ''nonexistent''"
    by (simp add: testMetabasePOCInstance_def HasPrefix_def)
  ultimately have "findByName testEnv [testMetabasePOCInstance] ''nonexistent''
     = Inl (Error (''no instance matching '' @ [CHR 0x27] @ ''nonexistent'' @ [CHR 0x27]))"
    using findByName_substring_match [of "[testMetabasePOCInstance]" "''nonexistent''" _ testEnv]
    by blast
  with one show ?thesis by simp
qed

text \<open>
  C10. A successful resolution returns an element of the instance list it was given, so
  a record with every field as it is in the list: by name, from the last selection, and
  through Run's choice between them and the picker.
\<close>

theorem resolution_returns_member:
  "(findByName ev instances name = Inr r \<longrightarrow> r \<in> set instances)
   \<and> (loadLastConnected ev instances profile w = Inr r \<longrightarrow> r \<in> set instances)
   \<and> (selectInstance ev opts instances w = Inr r \<longrightarrow> r \<in> set instances)"
proof -
  have a: "findByName ev instances n = Inr r \<Longrightarrow> r \<in> set instances" for n
    by (auto simp: findByName_def split: option.splits
             dest: firstWithID_Some substringPass_member)
  have b: "loadLastConnected ev instances p w = Inr r \<Longrightarrow> r \<in> set instances" for p
    by (auto simp: loadLastConnected_def Let_def split: option.splits dest: firstWithID_Some)
  have c: "selectInstance ev opts instances w = Inr r \<Longrightarrow> r \<in> set instances"
    by (auto simp: selectInstance_def split: if_splits dest: a b pickWithFuzzyFinder_member)
  from a b c show ?thesis by blast
qed

theorem resolution_returns_member_witness:
  "findByName testEnv [testStagingInstance, testMetabasePOCInstance] ''metabasedev''
     = Inr testMetabasePOCInstance
   \<and> loadLastConnected testEnv [testStagingInstance, testMetabasePOCInstance] ''testprofile''
       (saveLastID testEnv ''metabasedev-poc'' ''testprofile'' testWorld)
     = Inr testMetabasePOCInstance
   \<and> testMetabasePOCInstance \<in> set [testStagingInstance, testMetabasePOCInstance]"
proof -
  let ?l = "[testStagingInstance, testMetabasePOCInstance]"
  let ?w = "saveLastID testEnv ''metabasedev-poc'' ''testprofile'' testWorld"
  have f: "findByName testEnv ?l ''metabasedev'' = Inr testMetabasePOCInstance"
    by (simp add: findByName_def substringPass_def testMetabasePOCInstance_def
                  testStagingInstance_def HasPrefix_def)
  have l: "loadLastConnected testEnv ?l ''testprofile'' ?w = Inr testMetabasePOCInstance"
    by (simp add: loadLastConnected_def saveLastID_def os_WriteFile_def os_MkdirAll_def
                  os_ReadFile_def emit_def lastConnectedFile_def getCacheDir_def
                  filepath_Join_def testEnv_def testWorld_def TrimSpace_def asciiSpace_def
                  space2_def space3_def testMetabasePOCInstance_def testStagingInstance_def)
  from f l
    resolution_returns_member [of testEnv ?l "''metabasedev''" testMetabasePOCInstance
                                  "''testprofile''" ?w]
  show ?thesis by simp
qed

text \<open>
  C4. The read of the cache gives a list exactly when the cache file exists, its
  content parses as an envelope, the envelope's version is \<^verbatim>\<open>v2\<close> (the current
  schema version) and the file was modified less than one hour (3600 * 10^9 nanoseconds)
  before now; the list is then the envelope's. When it gives a list,
  GetInstancesWithCache returns it and does nothing else; when it gives none,
  GetInstancesWithCache asks the cloud for the instances next.
\<close>

theorem cacheLoad_iff:
  "(cacheLoad ev cacheFile w = Some cached \<longleftrightarrow>
      (\<exists>info envelope. files w cacheFile = Some info
          \<and> json_Unmarshal ev (content info) = Some envelope
          \<and> EnvelopeVersion envelope = ''v2''
          \<and> clock w - modTime info < 3600 * 10 ^ 9
          \<and> cached = Instances envelope))
   \<and> (cacheLoad ev (instancesCacheFile ev profile (cfgRegion cfg)) w = Some cached \<longrightarrow>
        GetInstancesWithCache ev cfg profile w = (Inr cached, w))
   \<and> (cacheLoad ev (instancesCacheFile ev profile (cfgRegion cfg)) w = None \<longrightarrow>
        (\<exists>rest. trace (snd (GetInstancesWithCache ev cfg profile w))
                  = trace w @ DescribeDBInstances cfg # rest))"
proof (intro conjI impI)
  show "cacheLoad ev cacheFile w = Some cached \<longleftrightarrow>
      (\<exists>info envelope. files w cacheFile = Some info
          \<and> json_Unmarshal ev (content info) = Some envelope
          \<and> EnvelopeVersion envelope = ''v2''
          \<and> clock w - modTime info < 3600 * 10 ^ 9
          \<and> cached = Instances envelope)"
    by (auto simp: cacheLoad_def Since_less_lit CacheVersion_def Hour_def
             split: option.splits if_splits)
next
  assume "cacheLoad ev (instancesCacheFile ev profile (cfgRegion cfg)) w = Some cached"
  then show "GetInstancesWithCache ev cfg profile w = (Inr cached, w)"
    by (simp add: GetInstancesWithCache_def Let_def)
next
  assume "cacheLoad ev (instancesCacheFile ev profile (cfgRegion cfg)) w = None"
  then show "\<exists>rest. trace (snd (GetInstancesWithCache ev cfg profile w))
                  = trace w @ DescribeDBInstances cfg # rest"
    by (auto simp: GetInstancesWithCache_def Let_def trace_emit trace_cacheSave
             split: sum.splits)
qed

theorem cacheLoad_iff_witness:
  "cacheLoad testEnv ''/tmp/rds/testprofile_ap-south-1_instances.json''
      (testWorld\<lparr>files := [''/tmp/rds/testprofile_ap-south-1_instances.json'' \<mapsto>
                             \<lparr>content = ''envelope v2 metabasedev-poc'', modTime = 1000\<rparr>],
                  clock := 3600000000999\<rparr>)
     = Some [testMetabasePOCInstance]
   \<and> cacheLoad testEnv ''/tmp/rds/testprofile_ap-south-1_instances.json''
      (testWorld\<lparr>files := [''/tmp/rds/testprofile_ap-south-1_instances.json'' \<mapsto>
                             \<lparr>content = ''envelope v2 metabasedev-poc'', modTime = 1000\<rparr>],
                  clock := 3600000001000\<rparr>)
     = None
   \<and> GetInstancesWithCache testEnv \<lparr>cfgRegion = ''ap-south-1'', cfgProfile = ''testprofile''\<rparr>
        ''testprofile''
        (testWorld\<lparr>files := [''/tmp/rds/testprofile_ap-south-1_instances.json'' \<mapsto>
                             \<lparr>content = ''envelope v2 metabasedev-poc'', modTime = 1000\<rparr>]\<rparr>)
     = (Inr [testMetabasePOCInstance],
        testWorld\<lparr>files := [''/tmp/rds/testprofile_ap-south-1_instances.json'' \<mapsto>
                             \<lparr>content = ''envelope v2 metabasedev-poc'', modTime = 1000\<rparr>]\<rparr>)"
proof -
  let ?f = "''/tmp/rds/testprofile_ap-south-1_instances.json''"
  let ?fs = "[?f \<mapsto> \<lparr>content = ''envelope v2 metabasedev-poc'', modTime = 1000\<rparr>]"
  let ?cfg = "\<lparr>cfgRegion = ''ap-south-1'', cfgProfile = ''testprofile''\<rparr>"
  have path: "instancesCacheFile testEnv ''testprofile'' ''ap-south-1'' = ?f"
    by (simp add: instancesCacheFile_def getCacheDir_def filepath_Join_def testEnv_def)
  have fresh: "cacheLoad testEnv ?f (testWorld\<lparr>files := ?fs, clock := 3600000000999\<rparr>)
                 = Some [testMetabasePOCInstance]"
    using cacheLoad_iff [of testEnv ?f "testWorld\<lparr>files := ?fs, clock := 3600000000999\<rparr>"
                            "[testMetabasePOCInstance]"]
    by (simp add: testEnv_def testEnvelope_def)
  have stale: "cacheLoad testEnv ?f (testWorld\<lparr>files := ?fs, clock := 3600000001000\<rparr>) = None"
    using cacheLoad_iff [of testEnv ?f "testWorld\<lparr>files := ?fs, clock := 3600000001000\<rparr>"]
    by (cases "cacheLoad testEnv ?f (testWorld\<lparr>files := ?fs, clock := 3600000001000\<rparr>)")
       (simp_all add: testEnv_def testEnvelope_def)
  have "cacheLoad testEnv ?f (testWorld\<lparr>files := ?fs\<rparr>) = Some [testMetabasePOCInstance]"
    using cacheLoad_iff [of testEnv ?f "testWorld\<lparr>files := ?fs\<rparr>" "[testMetabasePOCInstance]"]
    by (simp add: testEnv_def testEnvelope_def testWorld_def)
  then have hit: "GetInstancesWithCache testEnv ?cfg ''testprofile'' (testWorld\<lparr>files := ?fs\<rparr>)
                    = (Inr [testMetabasePOCInstance], testWorld\<lparr>files := ?fs\<rparr>)"
    using cacheLoad_iff [of testEnv _ "testWorld\<lparr>files := ?fs\<rparr>" "[testMetabasePOCInstance]"
                            "''testprofile''" ?cfg]
    by (simp add: path)
  from fresh stale hit show ?thesis by simp
qed

text \<open>
  C8. Save a list of records to the cache file of a profile and region, and read that
  file back: when the write succeeded, the JSON codec gives back the envelope it was
  given, the file is as it was saved, and less than one hour has passed on the clock,
  the read gives the saved records, and so does GetInstancesWithCache for the profile
  and region of that file, with no call to the cloud.
\<close>

theorem cache_roundtrip:
  assumes "writable ev cacheFile"
    and "json_Unmarshal ev (json_Marshal ev \<lparr>EnvelopeVersion = CacheVersion, Instances = records\<rparr>)
           = Some \<lparr>EnvelopeVersion = CacheVersion, Instances = records\<rparr>"
    and "files w2 cacheFile = files (cacheSave ev cacheDir cacheFile records w) cacheFile"
    and "clock w2 - clock w < Hour"
  shows "cacheLoad ev cacheFile w2 = Some records
         \<and> (cacheFile = instancesCacheFile ev profile (cfgRegion cfg) \<longrightarrow>
              GetInstancesWithCache ev cfg profile w2 = (Inr records, w2))"
proof -
  from assms have "cacheLoad ev cacheFile w2 = Some records"
    by (simp add: cacheLoad_def files_cacheSave Since_less_Hour)
  then show ?thesis
    by (auto simp: GetInstancesWithCache_def Let_def)
qed

theorem cache_roundtrip_witness:
  "GetInstancesWithCache testEnv \<lparr>cfgRegion = ''ap-south-1'', cfgProfile = ''testprofile''\<rparr>
        ''testprofile'' testWorld
     = (Inr [testMetabasePOCInstance],
        cacheSave testEnv ''/tmp/rds'' ''/tmp/rds/testprofile_ap-south-1_instances.json''
          [testMetabasePOCInstance]
          (emit (DescribeDBInstances \<lparr>cfgRegion = ''ap-south-1'', cfgProfile = ''testprofile''\<rparr>)
             testWorld))
   \<and> GetInstancesWithCache testEnv \<lparr>cfgRegion = ''ap-south-1'', cfgProfile = ''testprofile''\<rparr>
        ''testprofile''
        ((cacheSave testEnv ''/tmp/rds'' ''/tmp/rds/testprofile_ap-south-1_instances.json''
          [testMetabasePOCInstance]
          (emit (DescribeDBInstances \<lparr>cfgRegion = ''ap-south-1'', cfgProfile = ''testprofile''\<rparr>)
             testWorld))\<lparr>clock := 3600000000999\<rparr>)
     = (Inr [testMetabasePOCInstance],
        (cacheSave testEnv ''/tmp/rds'' ''/tmp/rds/testprofile_ap-south-1_instances.json''
          [testMetabasePOCInstance]
          (emit (DescribeDBInstances \<lparr>cfgRegion = ''ap-south-1'', cfgProfile = ''testprofile''\<rparr>)
             testWorld))\<lparr>clock := 3600000000999\<rparr>)"
proof -
  let ?f = "''/tmp/rds/testprofile_ap-south-1_instances.json''"
  let ?cfg = "\<lparr>cfgRegion = ''ap-south-1'', cfgProfile = ''testprofile''\<rparr>"
  let ?w = "emit (DescribeDBInstances ?cfg) testWorld"
  let ?w1 = "cacheSave testEnv ''/tmp/rds'' ?f [testMetabasePOCInstance] ?w"
  let ?w2 = "?w1\<lparr>clock := 3600000000999\<rparr>"
  have path: "instancesCacheFile testEnv ''testprofile'' ''ap-south-1'' = ?f"
    by (simp add: instancesCacheFile_def getCacheDir_def filepath_Join_def testEnv_def)
  have dir: "getCacheDir testEnv = ''/tmp/rds''"
    by (simp add: getCacheDir_def testEnv_def)
  have miss: "cacheLoad testEnv ?f testWorld = None"
    by (simp add: cacheLoad_def testWorld_def)
  have cloud: "rds_DescribeDBInstances testEnv ?cfg = Inr [testDBInstance]"
    by (simp add: testEnv_def)
  have pg: "collectPostgres [testDBInstance] [] = Inr [testMetabasePOCInstance]"
    by (simp add: testDBInstance_def testMetabasePOCInstance_def aws_ToString_def)
  have first: "GetInstancesWithCache testEnv ?cfg ''testprofile'' testWorld
       = (Inr [testMetabasePOCInstance], ?w1)"
    by (simp add: GetInstancesWithCache_def Let_def path dir miss cloud pg
             del: collectPostgres.simps)
  have wr: "writable testEnv ?f"
    by (simp add: testEnv_def)
  have codec: "json_Unmarshal testEnv
        (json_Marshal testEnv \<lparr>EnvelopeVersion = CacheVersion, Instances = [testMetabasePOCInstance]\<rparr>)
      = Some \<lparr>EnvelopeVersion = CacheVersion, Instances = [testMetabasePOCInstance]\<rparr>"
    by (simp add: testEnv_def testEnvelope_def CacheVersion_def)
  have same: "files ?w2 ?f = files ?w1 ?f"
    by simp
  have fresh: "clock ?w2 - clock ?w < Hour"
    by (simp add: clock_emit testWorld_def Hour_def)
  from cache_roundtrip [OF wr codec same fresh, of "''testprofile''" ?cfg] path
  have "GetInstancesWithCache testEnv ?cfg ''testprofile'' ?w2 = (Inr [testMetabasePOCInstance], ?w2)"
    by simp
  with first show ?thesis by simp
qed

text \<open>
  C6. Save the identifier \<open>X\<close> as the last selection of a profile and load it: when the
  write succeeded, loadLastConnected looks for the text of \<open>X\<close> without its surrounding
  white space, returns the first instance of the list with that identifier, and fails with
  a message that names the trimmed identifier when the list has none. For an instance
  of a list of distinct identifiers, whose identifier has no surrounding white space,
  saving its identifier and loading returns that instance. When the profile has no
  record, loadLastConnected fails with a message that names the profile.
\<close>

theorem lastConnected_roundtrip:
  "(writable ev (lastConnectedFile ev profile) \<longrightarrow>
      loadLastConnected ev instances profile (saveLastID ev X profile w) =
        (case find (\<lambda>i. ID i = TrimSpace X) instances of
           Some inst \<Rightarrow> Inr inst
         | None \<Rightarrow> Inl (Error (''last used instance '' @ [CHR 0x27] @ TrimSpace X @ [CHR 0x27]
                                @ '' not found in current profile''))))
   \<and> (writable ev (lastConnectedFile ev profile) \<and> inst \<in> set instances
        \<and> distinct (map ID instances) \<and> TrimSpace (ID inst) = ID inst \<longrightarrow>
      loadLastConnected ev instances profile (saveLastID ev (ID inst) profile w) = Inr inst)
   \<and> (files w (lastConnectedFile ev profile) = Some info
        \<and> (\<forall>i \<in> set instances. ID i \<noteq> TrimSpace (content info)) \<longrightarrow>
      loadLastConnected ev instances profile w =
        Inl (Error (''last used instance '' @ [CHR 0x27] @ TrimSpace (content info) @ [CHR 0x27]
                     @ '' not found in current profile'')))
   \<and> (files w (lastConnectedFile ev profile) = None \<longrightarrow>
      loadLastConnected ev instances profile w =
        Inl (Error (''no history found for profile '' @ [CHR 0x27] @ profile @ [CHR 0x27])))"
proof (intro conjI impI)
  assume "writable ev (lastConnectedFile ev profile)"
  then show "loadLastConnected ev instances profile (saveLastID ev X profile w) =
        (case find (\<lambda>i. ID i = TrimSpace X) instances of
           Some inst \<Rightarrow> Inr inst
         | None \<Rightarrow> Inl (Error (''last used instance '' @ [CHR 0x27] @ TrimSpace X @ [CHR 0x27]
                                @ '' not found in current profile'')))"
    by (simp add: loadLastConnected_def Let_def os_ReadFile_def files_saveLastID
                  firstWithID_find quoted_def apostrophe_def split: option.splits)
next
  assume a: "writable ev (lastConnectedFile ev profile) \<and> inst \<in> set instances
        \<and> distinct (map ID instances) \<and> TrimSpace (ID inst) = ID inst"
  then have "firstWithID instances (TrimSpace (ID inst)) = Some inst"
    by (simp add: firstWithID_distinct)
  with a show "loadLastConnected ev instances profile (saveLastID ev (ID inst) profile w) = Inr inst"
    by (simp add: loadLastConnected_def Let_def os_ReadFile_def files_saveLastID)
next
  assume a: "files w (lastConnectedFile ev profile) = Some info
        \<and> (\<forall>i \<in> set instances. ID i \<noteq> TrimSpace (content info))"
  then have "firstWithID instances (TrimSpace (content info)) = None"
    by (simp add: firstWithID_None)
  with a show "loadLastConnected ev instances profile w =
        Inl (Error (''last used instance '' @ [CHR 0x27] @ TrimSpace (content info) @ [CHR 0x27]
                     @ '' not found in current profile''))"
    by (simp add: loadLastConnected_def Let_def os_ReadFile_def quoted_def apostrophe_def)
next
  assume "files w (lastConnectedFile ev profile) = None"
  then show "loadLastConnected ev instances profile w =
        Inl (Error (''no history found for profile '' @ [CHR 0x27] @ profile @ [CHR 0x27]))"
    by (simp add: loadLastConnected_def os_ReadFile_def quoted_def apostrophe_def)
qed

theorem lastConnected_roundtrip_witness:
  "loadLastConnected testEnv [testMetabasePOCInstance, testStagingInstance] ''testprofile''
      (saveLastID testEnv ''metabasedev-poc'' ''testprofile'' testWorld)
     = Inr testMetabasePOCInstance
   \<and> loadLastConnected testEnv [testMetabasePOCInstance, testStagingInstance] ''testprofile''
      (saveLastID testEnv [CHR 0x20, CHR ''s'', CHR ''t'', CHR ''a'', CHR ''g'', CHR ''i'',
         CHR ''n'', CHR ''g'', CHR ''-'', CHR ''d'', CHR ''b'', CHR ''-'', CHR ''1'', CHR 0x0A]
         ''testprofile'' testWorld)
     = Inr testStagingInstance
   \<and> loadLastConnected testEnv [testStagingInstance] ''testprofile''
      (testWorld\<lparr>files := [''/tmp/rds/testprofile_last_connected'' \<mapsto>
                             \<lparr>content = ''deleted-db'', modTime = 0\<rparr>]\<rparr>)
     = Inl (Error (''last used instance '' @ [CHR 0x27] @ ''deleted-db'' @ [CHR 0x27]
                    @ '' not found in current profile''))
   \<and> loadLastConnected testEnv [testStagingInstance] ''noprofile'' testWorld
     = Inl (Error (''no history found for profile '' @ [CHR 0x27] @ ''noprofile'' @ [CHR 0x27]))"
proof -
  let ?l = "[testMetabasePOCInstance, testStagingInstance]"
  let ?padded = "[CHR 0x20, CHR ''s'', CHR ''t'', CHR ''a'', CHR ''g'', CHR ''i'',
         CHR ''n'', CHR ''g'', CHR ''-'', CHR ''d'', CHR ''b'', CHR ''-'', CHR ''1'', CHR 0x0A]"
  let ?w = "testWorld\<lparr>files := [''/tmp/rds/testprofile_last_connected'' \<mapsto>
                             \<lparr>content = ''deleted-db'', modTime = 0\<rparr>]\<rparr>"
  have wr: "writable testEnv (lastConnectedFile testEnv ''testprofile'')"
    by (simp add: testEnv_def)
  have path: "lastConnectedFile testEnv ''testprofile'' = ''/tmp/rds/testprofile_last_connected''"
    by (simp add: lastConnectedFile_def getCacheDir_def filepath_Join_def testEnv_def)
  have trim: "TrimSpace (ID testMetabasePOCInstance) = ID testMetabasePOCInstance"
    by (simp add: TrimSpace_def asciiSpace_def space2_def space3_def testMetabasePOCInstance_def)
  have trim2: "TrimSpace ?padded = ''staging-db-1''"
    by (simp add: TrimSpace_def asciiSpace_def space2_def space3_def)
  have trim3: "TrimSpace ''deleted-db'' = ''deleted-db''"
    by (simp add: TrimSpace_def asciiSpace_def space2_def space3_def)
  have d: "distinct (map ID ?l)"
    by (simp add: testMetabasePOCInstance_def testStagingInstance_def)
  have one: "loadLastConnected testEnv ?l ''testprofile''
               (saveLastID testEnv (ID testMetabasePOCInstance) ''testprofile'' testWorld)
             = Inr testMetabasePOCInstance"
    using lastConnected_roundtrip [of testEnv "''testprofile''" ?l _ testWorld
                                      testMetabasePOCInstance] wr trim d
    by simp
  have two: "loadLastConnected testEnv ?l ''testprofile''
               (saveLastID testEnv ?padded ''testprofile'' testWorld) = Inr testStagingInstance"
    using lastConnected_roundtrip [of testEnv "''testprofile''" ?l ?padded testWorld] wr
    by (simp add: trim2 testMetabasePOCInstance_def testStagingInstance_def)
  have three: "loadLastConnected testEnv [testStagingInstance] ''testprofile'' ?w
     = Inl (Error (''last used instance '' @ [CHR 0x27] @ ''deleted-db'' @ [CHR 0x27]
                    @ '' not found in current profile''))"
    using lastConnected_roundtrip [of testEnv "''testprofile''" "[testStagingInstance]" _ ?w _
                                      "\<lparr>content = ''deleted-db'', modTime = 0\<rparr>"]
    by (simp add: path trim3 testStagingInstance_def)
  have four: "loadLastConnected testEnv [testStagingInstance] ''noprofile'' testWorld
     = Inl (Error (''no history found for profile '' @ [CHR 0x27] @ ''noprofile'' @ [CHR 0x27]))"
    using lastConnected_roundtrip [of testEnv "''noprofile''" "[testStagingInstance]" _ testWorld]
    by (simp add: testWorld_def)
  from one two three four show ?thesis
    by (simp add: testMetabasePOCInstance_def)
qed

text \<open>
  C9. getRDSCredentials makes one call to the secret store, with a client whose region
  is the home region it was given and with the secret \<^verbatim>\<open>root/<target>/psql\<close>, for
  every selected instance; the region of the configuration it was given (the region the
  instance runs in) changes nothing of what it does.
\<close>

theorem getRDSCredentials_home_region:
  "trace (snd (getRDSCredentials ev cfg selected homeRegion w)) =
     trace w @ [GetSecretValue \<lparr>smRegion = homeRegion, smProfile = cfgProfile cfg\<rparr>
                  (''root/'' @ instanceSecretTargetID selected @ ''/psql'')]
   \<and> files (snd (getRDSCredentials ev cfg selected homeRegion w)) = files w
   \<and> getRDSCredentials ev (cfg\<lparr>cfgRegion := region\<rparr>) selected homeRegion w
       = getRDSCredentials ev cfg selected homeRegion w"
  by (simp add: getRDSCredentials_def sm_NewFromConfig_def Let_def trace_emit files_emit
           split: sum.splits option.splits)

theorem getRDSCredentials_home_region_witness:
  "trace (snd (getRDSCredentials testEnv \<lparr>cfgRegion = ''ap-southeast-1'', cfgProfile = ''testprofile''\<rparr>
                 testMetabasePOCInstance ''ap-south-1'' testWorld))
     = [GetSecretValue \<lparr>smRegion = ''ap-south-1'', smProfile = ''testprofile''\<rparr>
          ''root/metabasedev-poc/psql'']
   \<and> trace (snd (getRDSCredentials testEnv \<lparr>cfgRegion = ''ap-southeast-1'', cfgProfile = ''testprofile''\<rparr>
                 (testReplicaInstance\<lparr>SourceID := ''master-db''\<rparr>) ''ap-south-1'' testWorld))
     = [GetSecretValue \<lparr>smRegion = ''ap-south-1'', smProfile = ''testprofile''\<rparr>
          ''root/master-db/psql'']
   \<and> fst (getRDSCredentials testEnv \<lparr>cfgRegion = ''ap-southeast-1'', cfgProfile = ''testprofile''\<rparr>
                 testMetabasePOCInstance ''ap-south-1'' testWorld)
     = Inr \<lparr>Username = ''postgres'', Password = ''test-secret''\<rparr>"
proof -
  let ?cfg = "\<lparr>cfgRegion = ''ap-southeast-1'', cfgProfile = ''testprofile''\<rparr>"
  let ?plain = "testReplicaInstance\<lparr>SourceID := ''master-db''\<rparr>"
  have own: "instanceSecretTargetID testMetabasePOCInstance = ''metabasedev-poc''"
    by (simp add: instanceSecretTargetID_def testMetabasePOCInstance_def)
  have plain: "instanceSecretTargetID ?plain = ''master-db''"
    by (simp add: instanceSecretTargetID_def HasPrefix_def)
  have a: "trace (snd (getRDSCredentials testEnv ?cfg testMetabasePOCInstance ''ap-south-1'' testWorld))
     = [GetSecretValue \<lparr>smRegion = ''ap-south-1'', smProfile = ''testprofile''\<rparr>
          ''root/metabasedev-poc/psql'']"
    using getRDSCredentials_home_region [of testEnv ?cfg testMetabasePOCInstance "''ap-south-1''"
                                            testWorld]
    by (simp add: own testWorld_def)
  have b: "trace (snd (getRDSCredentials testEnv ?cfg ?plain ''ap-south-1'' testWorld))
     = [GetSecretValue \<lparr>smRegion = ''ap-south-1'', smProfile = ''testprofile''\<rparr>
          ''root/master-db/psql'']"
    using getRDSCredentials_home_region [of testEnv ?cfg ?plain "''ap-south-1''" testWorld]
    by (simp add: plain testWorld_def)
  have c: "fst (getRDSCredentials testEnv ?cfg testMetabasePOCInstance ''ap-south-1'' testWorld)
     = Inr \<lparr>Username = ''postgres'', Password = ''test-secret''\<rparr>"
    by (simp add: getRDSCredentials_def sm_NewFromConfig_def Let_def own testEnv_def)
  from a b c show ?thesis by simp
qed

text \<open>
  C3 as the program has it. When the child starts and standard input is a terminal,
  startAndWait issues, in this order, the start of the child in its own process group, the
  hand-over of the terminal to the child, the wait, and the hand-back of the terminal to
  the parent's process group, whatever the wait returns; the terminal is the child's from
  the hand-over to the hand-back. When standard input is not a terminal, it only starts
  the child and waits. When the child does not start, startAndWait returns the error at
  once: it issues neither request, and the terminal stays with the parent. On every
  path a terminal that the parent's group owned before is the parent's group's after.
\<close>

theorem startAndWait_terminal_ownership:
  "(cmd_Start ev (cmd\<lparr>Setpgid := True\<rparr>) = Inr pid \<and> IsTerminal ev \<longrightarrow>
      startAndWait ev cmd w =
        (cmd_Wait ev,
         w\<lparr>trace := trace w @ [Start (cmd\<lparr>Setpgid := True\<rparr>), TIOCSPGRP pid, Wait,
                                TIOCSPGRP (Getpgrp ev)]\<rparr>)
      \<and> foreground (Getpgrp ev) [Start (cmd\<lparr>Setpgid := True\<rparr>), TIOCSPGRP pid] = pid
      \<and> foreground (Getpgrp ev) [Start (cmd\<lparr>Setpgid := True\<rparr>), TIOCSPGRP pid, Wait] = pid)
   \<and> (cmd_Start ev (cmd\<lparr>Setpgid := True\<rparr>) = Inr pid \<and> \<not> IsTerminal ev \<longrightarrow>
      startAndWait ev cmd w =
        (cmd_Wait ev, w\<lparr>trace := trace w @ [Start (cmd\<lparr>Setpgid := True\<rparr>), Wait]\<rparr>))
   \<and> (cmd_Start ev (cmd\<lparr>Setpgid := True\<rparr>) = Inl err \<longrightarrow>
      startAndWait ev cmd w =
        (Some err, w\<lparr>trace := trace w @ [Start (cmd\<lparr>Setpgid := True\<rparr>)]\<rparr>))
   \<and> foreground (Getpgrp ev)
        (drop (length (trace w)) (trace (snd (startAndWait ev cmd w)))) = Getpgrp ev"
  by (cases "cmd_Start ev (cmd\<lparr>Setpgid := True\<rparr>)")
     (simp_all add: startAndWait_def Let_def emit_def)

theorem startAndWait_terminal_ownership_witness:
  "startAndWait testEnv testCmd testWorld =
     (Some (Error ''exit status 1''),
      testWorld\<lparr>trace := [Start (testCmd\<lparr>Setpgid := True\<rparr>), TIOCSPGRP 4242, Wait,
                           TIOCSPGRP 4000]\<rparr>)
   \<and> startAndWait (testEnv\<lparr>IsTerminal := False\<rparr>) testCmd testWorld =
     (Some (Error ''exit status 1''),
      testWorld\<lparr>trace := [Start (testCmd\<lparr>Setpgid := True\<rparr>), Wait]\<rparr>)
   \<and> startAndWait testEnvStartFails testCmd testWorld =
     (Some (Error ''fork/exec /usr/bin/psql: permission denied''),
      testWorld\<lparr>trace := [Start (testCmd\<lparr>Setpgid := True\<rparr>)]\<rparr>)"
proof -
  have a: "cmd_Start testEnv (testCmd\<lparr>Setpgid := True\<rparr>) = Inr 4242 \<and> IsTerminal testEnv"
    by (simp add: testEnv_def)
  have b: "cmd_Start (testEnv\<lparr>IsTerminal := False\<rparr>) (testCmd\<lparr>Setpgid := True\<rparr>) = Inr 4242
           \<and> \<not> IsTerminal (testEnv\<lparr>IsTerminal := False\<rparr>)"
    by (simp add: testEnv_def)
  have c: "cmd_Start testEnvStartFails (testCmd\<lparr>Setpgid := True\<rparr>)
             = Inl (Error ''fork/exec /usr/bin/psql: permission denied'')"
    by (simp add: testEnvStartFails_def)
  have w: "cmd_Wait testEnv = Some (Error ''exit status 1'')" "Getpgrp testEnv = 4000"
    "trace testWorld = []"
    by (simp_all add: testEnv_def testWorld_def)
  from a startAndWait_terminal_ownership [of testEnv testCmd 4242 testWorld]
  have one: "startAndWait testEnv testCmd testWorld =
     (Some (Error ''exit status 1''),
      testWorld\<lparr>trace := [Start (testCmd\<lparr>Setpgid := True\<rparr>), TIOCSPGRP 4242, Wait,
                           TIOCSPGRP 4000]\<rparr>)"
    by (simp add: w)
  from b startAndWait_terminal_ownership [of "testEnv\<lparr>IsTerminal := False\<rparr>" testCmd 4242 testWorld]
  have two: "startAndWait (testEnv\<lparr>IsTerminal := False\<rparr>) testCmd testWorld =
     (Some (Error ''exit status 1''),
      testWorld\<lparr>trace := [Start (testCmd\<lparr>Setpgid := True\<rparr>), Wait]\<rparr>)"
    by (simp add: w)
  from c startAndWait_terminal_ownership [of testEnvStartFails testCmd _ testWorld]
  have three: "startAndWait testEnvStartFails testCmd testWorld =
     (Some (Error ''fork/exec /usr/bin/psql: permission denied''),
      testWorld\<lparr>trace := [Start (testCmd\<lparr>Setpgid := True\<rparr>)]\<rparr>)"
    by (simp add: w)
  from one two three show ?thesis by simp
qed

text \<open>
  C3 as the claim states it fails: standard input is a terminal and the child does not
  start; startAndWait returns the error of the start, and its trace holds no request
  that gives the terminal to the parent's process group.
\<close>

theorem startAndWait_restore_counterexample:
  "IsTerminal testEnvStartFails
   \<and> fst (startAndWait testEnvStartFails testCmd testWorld)
       = Some (Error ''fork/exec /usr/bin/psql: permission denied'')
   \<and> TIOCSPGRP (Getpgrp testEnvStartFails)
       \<notin> set (trace (snd (startAndWait testEnvStartFails testCmd testWorld)))"
  by (simp add: startAndWait_def Let_def emit_def testEnvStartFails_def testEnv_def
                testWorld_def)

text \<open>
  C5. Run, once the configuration is loaded and the instances are known. When the
  selection fails, Run returns the selection error and the world as the discovery left
  it; when the credential fetch fails, Run returns the secrets error; in both cases the
  last-selection file of every profile \<open>p\<close> is as it was before Run and no write to it
  was issued. When the credential fetch succeeds, Run returns no error, whatever the
  client does, and what it does after the fetch is: create the cache directory, write
  the selected identifier to the last-selection file of the profile, then launch a
  client; the file then holds the selected identifier if the write succeeded.
\<close>

theorem Run_last_selection:
  assumes "loadAWSConfig ev (Profile opts) (Region opts) = Inr (cfg, homeRegion)"
    and "GetInstancesWithCache ev cfg (Profile opts) w = (Inr instances, w1)"
  shows
    "(selectInstance ev opts instances w1 = Inl selectErr \<longrightarrow>
        Run ev opts w = (Some (wrapf ''selection: '' selectErr), w1)
        \<and> files w1 (lastConnectedFile ev p) = files w (lastConnectedFile ev p)
        \<and> (\<forall>d. WriteFile (lastConnectedFile ev p) d
                 \<notin> set (drop (length (trace w)) (trace w1))))
     \<and> (selectInstance ev opts instances w1 = Inr selected
          \<and> getRDSCredentials ev cfg selected homeRegion w1 = (Inl err, w2) \<longrightarrow>
        Run ev opts w = (Some (wrapf ''secrets: '' err), w2)
        \<and> files w2 (lastConnectedFile ev p) = files w (lastConnectedFile ev p)
        \<and> (\<forall>d. WriteFile (lastConnectedFile ev p) d
                 \<notin> set (drop (length (trace w)) (trace w2))))
     \<and> (selectInstance ev opts instances w1 = Inr selected
          \<and> getRDSCredentials ev cfg selected homeRegion w1 = (Inr creds, w2) \<longrightarrow>
        (\<exists>w' launched.
            Run ev opts w = (None, w')
            \<and> trace w' = trace w2 @ [MkdirAll (getCacheDir ev),
                                      WriteFile (lastConnectedFile ev (Profile opts)) (ID selected)]
                            @ launched
            \<and> launched \<noteq> [] \<and> isLaunch (hd launched)
            \<and> (writable ev (lastConnectedFile ev (Profile opts)) \<longrightarrow>
                 map_option content (files w' (lastConnectedFile ev (Profile opts)))
                   = Some (ID selected))))"
proof -
  from GetInstancesWithCache_last_untouched [OF assms(2), of p]
  obtain added where
    f1: "files w1 (lastConnectedFile ev p) = files w (lastConnectedFile ev p)"
    and t1: "trace w1 = trace w @ added"
    and n1: "\<forall>d. WriteFile (lastConnectedFile ev p) d \<notin> set added"
    by blast
  have sel: "Run ev opts w = (Some (wrapf ''selection: '' selectErr), w1)"
    if "selectInstance ev opts instances w1 = Inl selectErr"
    using that assms by (simp add: Run_def)
  have sec: "Run ev opts w = (Some (wrapf ''secrets: '' err), w2)
        \<and> files w2 (lastConnectedFile ev p) = files w (lastConnectedFile ev p)
        \<and> (\<forall>d. WriteFile (lastConnectedFile ev p) d
                 \<notin> set (drop (length (trace w)) (trace w2)))"
    if "selectInstance ev opts instances w1 = Inr selected"
      and c: "getRDSCredentials ev cfg selected homeRegion w1 = (Inl err, w2)"
  proof -
    from that assms have "Run ev opts w = (Some (wrapf ''secrets: '' err), w2)"
      by (simp add: Run_def)
    with getRDSCredentials_effects [OF c] f1 t1 n1 show ?thesis by simp
  qed
  have ok: "\<exists>w' launched.
            Run ev opts w = (None, w')
            \<and> trace w' = trace w2 @ [MkdirAll (getCacheDir ev),
                                      WriteFile (lastConnectedFile ev (Profile opts)) (ID selected)]
                            @ launched
            \<and> launched \<noteq> [] \<and> isLaunch (hd launched)
            \<and> (writable ev (lastConnectedFile ev (Profile opts)) \<longrightarrow>
                 map_option content (files w' (lastConnectedFile ev (Profile opts)))
                   = Some (ID selected))"
    if "selectInstance ev opts instances w1 = Inr selected"
      and "getRDSCredentials ev cfg selected homeRegion w1 = (Inr creds, w2)"
  proof -
    let ?w3 = "saveLastID ev (ID selected) (Profile opts) w2"
    from that assms have run: "Run ev opts w = (None, launch ev selected creds ?w3)"
      by (simp add: Run_def Let_def)
    from launch_effects [of ev selected creds ?w3]
    obtain launched where
      lf: "files (launch ev selected creds ?w3) = files ?w3"
      and lt: "trace (launch ev selected creds ?w3) = trace ?w3 @ launched"
      and ln: "launched \<noteq> []" "isLaunch (hd launched)"
      by blast
    from lt have "trace (launch ev selected creds ?w3) =
        trace w2 @ [MkdirAll (getCacheDir ev),
                    WriteFile (lastConnectedFile ev (Profile opts)) (ID selected)] @ launched"
      by (simp add: trace_saveLastID)
    moreover from lf have "writable ev (lastConnectedFile ev (Profile opts)) \<longrightarrow>
        map_option content (files (launch ev selected creds ?w3) (lastConnectedFile ev (Profile opts)))
          = Some (ID selected)"
      by (simp add: files_saveLastID)
    ultimately show ?thesis using run ln by blast
  qed
  from sel sec ok f1 t1 n1 show ?thesis by simp
qed

theorem Run_last_selection_witness:
  "fst (Run testEnv (testOptions\<lparr>Args := [''nonexistent'']\<rparr>) testWorld)
     = Some (Error (''selection: no instance matching '' @ [CHR 0x27] @ ''nonexistent''
                     @ [CHR 0x27]))
   \<and> files (snd (Run testEnv (testOptions\<lparr>Args := [''nonexistent'']\<rparr>) testWorld))
        ''/tmp/rds/testprofile_last_connected'' = None
   \<and> fst (Run testEnvNoSecret testOptions testWorld)
     = Some (Error (''secrets: failed to fetch secret '' @ [CHR 0x27]
                     @ ''root/metabasedev-poc/psql'' @ [CHR 0x27]
                     @ '' in ap-south-1: AccessDeniedException''))
   \<and> files (snd (Run testEnvNoSecret testOptions testWorld))
        ''/tmp/rds/testprofile_last_connected'' = None
   \<and> fst (Run testEnv testOptions testWorld) = None
   \<and> cmd_Wait testEnv = Some (Error ''exit status 1'')
   \<and> map_option content
        (files (snd (Run testEnv testOptions testWorld)) ''/tmp/rds/testprofile_last_connected'')
     = Some ''metabasedev-poc''"
proof -
  let ?cfg = "\<lparr>cfgRegion = ''ap-southeast-1'', cfgProfile = ''testprofile''\<rparr>"
  let ?f = "''/tmp/rds/testprofile_ap-southeast-1_instances.json''"
  let ?last = "''/tmp/rds/testprofile_last_connected''"
  let ?w1 = "\<lambda>ev. cacheSave ev ''/tmp/rds'' ?f [testMetabasePOCInstance]
                    (emit (DescribeDBInstances ?cfg) testWorld)"
  let ?none = "testOptions\<lparr>Args := [''nonexistent'']\<rparr>"
  have opts: "Profile testOptions = ''testprofile''" "Region testOptions = []"
    "Profile ?none = ''testprofile''" "Region ?none = []"
    by (simp_all add: testOptions_def)
  have cfg: "loadAWSConfig ev ''testprofile'' [] = Inr (?cfg, ''ap-south-1'')"
    if "ev = testEnv \<or> ev = testEnvNoSecret" for ev
    using that by (auto simp: loadAWSConfig_def testEnv_def testEnvNoSecret_def)
  have last: "lastConnectedFile ev ''testprofile'' = ?last"
    if "ev = testEnv \<or> ev = testEnvNoSecret" for ev
    using that
    by (auto simp: lastConnectedFile_def getCacheDir_def filepath_Join_def testEnv_def
                   testEnvNoSecret_def)
  have pg: "collectPostgres [testDBInstance] [] = Inr [testMetabasePOCInstance]"
    by (simp add: testDBInstance_def testMetabasePOCInstance_def aws_ToString_def)
  have inst: "GetInstancesWithCache ev ?cfg ''testprofile'' testWorld
                = (Inr [testMetabasePOCInstance], ?w1 ev)"
    if "ev = testEnv \<or> ev = testEnvNoSecret" for ev
    using that
    by (auto simp: GetInstancesWithCache_def Let_def cacheLoad_def instancesCacheFile_def
                   getCacheDir_def filepath_Join_def testEnv_def testEnvNoSecret_def
                   testWorld_def pg
             simp del: collectPostgres.simps)
  have before: "files testWorld ?last = None"
    by (simp add: testWorld_def)
  have sel1: "selectInstance testEnv ?none [testMetabasePOCInstance] (?w1 testEnv)
                = Inl (Error (''no instance matching '' @ [CHR 0x27] @ ''nonexistent'' @ [CHR 0x27]))"
    by (simp add: selectInstance_def findByName_def substringPass_def testOptions_def
                  testMetabasePOCInstance_def HasPrefix_def quoted_def apostrophe_def)
  have sel2: "selectInstance ev testOptions [testMetabasePOCInstance] (?w1 ev)
                = Inr testMetabasePOCInstance" for ev
    by (simp add: selectInstance_def findByName_def substringPass_def testOptions_def
                  testMetabasePOCInstance_def HasPrefix_def)
  have target: "instanceSecretTargetID testMetabasePOCInstance = ''metabasedev-poc''"
    by (simp add: instanceSecretTargetID_def testMetabasePOCInstance_def)
  have cred2: "getRDSCredentials testEnvNoSecret ?cfg testMetabasePOCInstance ''ap-south-1''
                 (?w1 testEnvNoSecret)
               = (Inl (Error (''failed to fetch secret '' @ [CHR 0x27]
                               @ ''root/metabasedev-poc/psql'' @ [CHR 0x27]
                               @ '' in ap-south-1: AccessDeniedException'')),
                  snd (getRDSCredentials testEnvNoSecret ?cfg testMetabasePOCInstance
                         ''ap-south-1'' (?w1 testEnvNoSecret)))"
    by (simp add: getRDSCredentials_def Let_def target testEnvNoSecret_def quoted_def
                  apostrophe_def)
  have cred3: "getRDSCredentials testEnv ?cfg testMetabasePOCInstance ''ap-south-1'' (?w1 testEnv)
               = (Inr \<lparr>Username = ''postgres'', Password = ''test-secret''\<rparr>,
                  snd (getRDSCredentials testEnv ?cfg testMetabasePOCInstance
                         ''ap-south-1'' (?w1 testEnv)))"
    by (simp add: getRDSCredentials_def sm_NewFromConfig_def Let_def target testEnv_def)
  have wr: "writable testEnv ?last"
    by (simp add: testEnv_def)
  have one: "fst (Run testEnv ?none testWorld)
               = Some (Error (''selection: no instance matching '' @ [CHR 0x27] @ ''nonexistent''
                               @ [CHR 0x27]))
             \<and> files (snd (Run testEnv ?none testWorld)) ?last = None"
    using Run_last_selection [of testEnv ?none ?cfg "''ap-south-1''" testWorld
                                 "[testMetabasePOCInstance]" "?w1 testEnv" _ "''testprofile''"]
          cfg [of testEnv] inst [of testEnv] sel1 before
    by (simp add: opts last)
  have two: "fst (Run testEnvNoSecret testOptions testWorld)
               = Some (Error (''secrets: failed to fetch secret '' @ [CHR 0x27]
                     @ ''root/metabasedev-poc/psql'' @ [CHR 0x27]
                     @ '' in ap-south-1: AccessDeniedException''))
             \<and> files (snd (Run testEnvNoSecret testOptions testWorld)) ?last = None"
    using Run_last_selection [of testEnvNoSecret testOptions ?cfg "''ap-south-1''" testWorld
                                 "[testMetabasePOCInstance]" "?w1 testEnvNoSecret" _
                                 "''testprofile''" testMetabasePOCInstance]
          cfg [of testEnvNoSecret] inst [of testEnvNoSecret] sel2 [of testEnvNoSecret] cred2 before
    by (simp add: opts last)
  have three: "fst (Run testEnv testOptions testWorld) = None
             \<and> map_option content (files (snd (Run testEnv testOptions testWorld)) ?last)
                 = Some ''metabasedev-poc''"
  proof -
    let ?creds = "\<lparr>Username = ''postgres'', Password = ''test-secret''\<rparr>"
    let ?w2 = "snd (getRDSCredentials testEnv ?cfg testMetabasePOCInstance ''ap-south-1''
                      (?w1 testEnv))"
    have c: "loadAWSConfig testEnv (Profile testOptions) (Region testOptions)
               = Inr (?cfg, ''ap-south-1'')"
      using cfg [of testEnv] by (simp add: opts)
    have i: "GetInstancesWithCache testEnv ?cfg (Profile testOptions) testWorld
               = (Inr [testMetabasePOCInstance], ?w1 testEnv)"
      using inst [of testEnv] by (simp add: opts)
    have "selectInstance testEnv testOptions [testMetabasePOCInstance] (?w1 testEnv)
            = Inr testMetabasePOCInstance
          \<and> getRDSCredentials testEnv ?cfg testMetabasePOCInstance ''ap-south-1'' (?w1 testEnv)
            = (Inr ?creds, ?w2)"
      using sel2 [of testEnv] cred3 by simp
    with Run_last_selection [OF c i, of _ _ testMetabasePOCInstance _ ?w2 ?creds]
    obtain w' where run: "Run testEnv testOptions testWorld = (None, w')"
      and f: "writable testEnv (lastConnectedFile testEnv (Profile testOptions)) \<longrightarrow>
                map_option content (files w' (lastConnectedFile testEnv (Profile testOptions)))
                  = Some (ID testMetabasePOCInstance)"
      by blast
    from f wr have "map_option content (files w' ?last) = Some ''metabasedev-poc''"
      by (simp add: opts last testMetabasePOCInstance_def)
    with run show ?thesis by simp
  qed
  have "cmd_Wait testEnv = Some (Error ''exit status 1'')"
    by (simp add: testEnv_def)
  with one two three show ?thesis by simp
qed

end
